theory Spec2Isabelle
  imports Complex_Main "HOL-Library.Word"
begin

section \<open>Single-precision values\<close>

text \<open>
  The routines of \<^verbatim>\<open>lsm303algo.c\<close> compute on C \<^verbatim>\<open>float\<close>. A value is modelled as a
  real number or one of the three special values of IEEE 754. Arithmetic on finite values
  is exact (rounding, overflow, underflow and the sign of zero are not modelled); the
  special values follow the rules of IEEE 754 and of Annex F of the C standard, so that a
  division by zero yields an infinity or a NaN and every ordered comparison with a NaN is
  false, as on the target.
\<close>

datatype flt = Fin real | PInf | NInf | NaN

fun fneg :: "flt \<Rightarrow> flt" where
  "fneg (Fin a) = Fin (- a)"
| "fneg PInf = NInf"
| "fneg NInf = PInf"
| "fneg NaN = NaN"

fun fadd :: "flt \<Rightarrow> flt \<Rightarrow> flt" where
  "fadd (Fin a) (Fin b) = Fin (a + b)"
| "fadd NaN _ = NaN"
| "fadd _ NaN = NaN"
| "fadd PInf NInf = NaN"
| "fadd NInf PInf = NaN"
| "fadd PInf _ = PInf"
| "fadd _ PInf = PInf"
| "fadd NInf _ = NInf"
| "fadd _ NInf = NInf"

definition fsub :: "flt \<Rightarrow> flt \<Rightarrow> flt" where
  "fsub a b = fadd a (fneg b)"

fun fmul :: "flt \<Rightarrow> flt \<Rightarrow> flt" where
  "fmul (Fin a) (Fin b) = Fin (a * b)"
| "fmul NaN _ = NaN"
| "fmul _ NaN = NaN"
| "fmul (Fin a) PInf = (if 0 < a then PInf else if a < 0 then NInf else NaN)"
| "fmul (Fin a) NInf = (if 0 < a then NInf else if a < 0 then PInf else NaN)"
| "fmul PInf (Fin b) = (if 0 < b then PInf else if b < 0 then NInf else NaN)"
| "fmul NInf (Fin b) = (if 0 < b then NInf else if b < 0 then PInf else NaN)"
| "fmul PInf PInf = PInf"
| "fmul PInf NInf = NInf"
| "fmul NInf PInf = NInf"
| "fmul NInf NInf = PInf"

fun fdiv :: "flt \<Rightarrow> flt \<Rightarrow> flt" where
  "fdiv (Fin a) (Fin b) =
     (if b \<noteq> 0 then Fin (a / b)
      else if 0 < a then PInf else if a < 0 then NInf else NaN)"
| "fdiv NaN _ = NaN"
| "fdiv _ NaN = NaN"
| "fdiv (Fin a) PInf = Fin 0"
| "fdiv (Fin a) NInf = Fin 0"
| "fdiv PInf (Fin b) = (if 0 \<le> b then PInf else NInf)"
| "fdiv NInf (Fin b) = (if 0 \<le> b then NInf else PInf)"
| "fdiv PInf PInf = NaN"
| "fdiv PInf NInf = NaN"
| "fdiv NInf PInf = NaN"
| "fdiv NInf NInf = NaN"

fun fsqrt :: "flt \<Rightarrow> flt" where
  "fsqrt (Fin a) = (if 0 \<le> a then Fin (sqrt a) else NaN)"
| "fsqrt PInf = PInf"
| "fsqrt NInf = NaN"
| "fsqrt NaN = NaN"

fun fabsf :: "flt \<Rightarrow> flt" where
  "fabsf (Fin a) = Fin \<bar>a\<bar>"
| "fabsf PInf = PInf"
| "fabsf NInf = PInf"
| "fabsf NaN = NaN"

text \<open>The comparisons \<^verbatim>\<open><\<close>, \<^verbatim>\<open>>\<close> and \<^verbatim>\<open>==\<close>.\<close>

fun flt_less :: "flt \<Rightarrow> flt \<Rightarrow> bool" where
  "flt_less (Fin a) (Fin b) = (a < b)"
| "flt_less NaN _ = False"
| "flt_less _ NaN = False"
| "flt_less _ NInf = False"
| "flt_less PInf _ = False"
| "flt_less NInf _ = True"
| "flt_less _ PInf = True"

definition flt_greater :: "flt \<Rightarrow> flt \<Rightarrow> bool" where
  "flt_greater a b = flt_less b a"

fun flt_eq :: "flt \<Rightarrow> flt \<Rightarrow> bool" where
  "flt_eq (Fin a) (Fin b) = (a = b)"
| "flt_eq PInf PInf = True"
| "flt_eq NInf NInf = True"
| "flt_eq _ _ = False"

text \<open>
  \<^verbatim>\<open>atan2\<close> on the reals, with its value in \<open>(-pi, pi]\<close>, and on the model. The model has
  one zero: where \<open>y\<close> is zero and \<open>x\<close> is negative or zero, the C function answers by the
  signs of the zeros (\<open>-pi\<close> for a negative zero \<open>y\<close> and a negative \<open>x\<close>), the model as for
  positive zeros. Below, \<^verbatim>\<open>atan2f\<close> is evaluated only at a positive \<open>x\<close>, at \<open>y = 0\<close> with
  the zero of a square root as \<open>x\<close>, where the code yields a zero too, and at NaN.
\<close>

definition atan2 :: "real \<Rightarrow> real \<Rightarrow> real" where
  "atan2 y x =
     (if 0 < x then arctan (y / x)
      else if x < 0 then (if 0 \<le> y then arctan (y / x) + pi else arctan (y / x) - pi)
      else if 0 < y then pi / 2 else if y < 0 then - (pi / 2) else 0)"

fun atan2f :: "flt \<Rightarrow> flt \<Rightarrow> flt" where
  "atan2f (Fin y) (Fin x) = Fin (atan2 y x)"
| "atan2f NaN _ = NaN"
| "atan2f _ NaN = NaN"
| "atan2f (Fin y) PInf = Fin 0"
| "atan2f (Fin y) NInf = Fin (if 0 \<le> y then pi else - pi)"
| "atan2f PInf (Fin x) = Fin (pi / 2)"
| "atan2f NInf (Fin x) = Fin (- (pi / 2))"
| "atan2f PInf PInf = Fin (pi / 4)"
| "atan2f PInf NInf = Fin (3 * pi / 4)"
| "atan2f NInf PInf = Fin (- (pi / 4))"
| "atan2f NInf NInf = Fin (- (3 * pi / 4))"

fun acosf :: "flt \<Rightarrow> flt" where
  "acosf (Fin a) = (if - 1 \<le> a \<and> a \<le> 1 then Fin (arccos a) else NaN)"
| "acosf _ = NaN"

text \<open>The constants of the source.\<close>

definition CNTSETUP :: "8 word" where
  "CNTSETUP = 32"

text \<open>
  The literal \<^verbatim>\<open>57.295779513082320876798154814105F\<close> is a \<^verbatim>\<open>float\<close> constant: the program
  holds its nearest single-precision value, \<open>15019745 / 2\<^sup>1\<^sup>8\<close>, which is above \<open>180 / pi\<close>.
\<close>

definition RAD2DEG :: flt where
  "RAD2DEG = Fin (15019745 / 262144)"

section \<open>Running a routine over a stream of calls\<close>

text \<open>
  Every routine keeps its memory in \<^verbatim>\<open>static\<close> variables. In the model a routine takes
  the record of its static variables and the arguments of one call and returns the value
  of the call with the updated record. A sequence of calls threads the record through.
\<close>

fun run_state :: "('s \<Rightarrow> 'i \<Rightarrow> 'o \<times> 's) \<Rightarrow> 's \<Rightarrow> 'i list \<Rightarrow> 's" where
  "run_state f s [] = s"
| "run_state f s (x # xs) = run_state f (snd (f s x)) xs"

fun run_outs :: "('s \<Rightarrow> 'i \<Rightarrow> 'o \<times> 's) \<Rightarrow> 's \<Rightarrow> 'i list \<Rightarrow> 'o list" where
  "run_outs f s [] = []"
| "run_outs f s (x # xs) = fst (f s x) # run_outs f (snd (f s x)) xs"

section \<open>Fall detection\<close>

datatype stage_t = STAGE_INIT | STAGE_WEIGHLESSNESS | STAGE_FALL

text \<open>
  \<^verbatim>\<open>detectFall\<close> keeps the stage; its second static variable \<^verbatim>\<open>smpl\<close> is never read or
  written. The magnitude \<open>M\<close> is computed before the \<^verbatim>\<open>switch\<close>.
\<close>

definition magnitude :: "flt \<Rightarrow> flt \<Rightarrow> flt \<Rightarrow> flt" where
  "magnitude x y z = fsqrt (fadd (fadd (fmul x x) (fmul y y)) (fmul z z))"

definition detectFall :: "stage_t \<Rightarrow> flt \<times> flt \<times> flt \<times> flt \<times> flt \<Rightarrow> stage_t \<times> stage_t" where
  "detectFall stage = (\<lambda>(x, y, z, wThs, iThs).
     (let M = magnitude x y z;
          stage' = (case stage of
              STAGE_INIT \<Rightarrow> (if flt_less M wThs then STAGE_WEIGHLESSNESS else stage)
            | STAGE_WEIGHLESSNESS \<Rightarrow> (if flt_greater M iThs then STAGE_FALL else stage)
            | STAGE_FALL \<Rightarrow> (if flt_eq (fadd wThs iThs) (Fin 0) then STAGE_INIT else stage))
      in (stage', stage')))"

section \<open>Motion detection\<close>

text \<open>The expression \<^verbatim>\<open>alpha * x + (1.0F - alpha) * f\<close> of every low-pass update.\<close>

definition low_pass :: "flt \<Rightarrow> flt \<Rightarrow> flt \<Rightarrow> flt" where
  "low_pass alpha x f = fadd (fmul alpha x) (fmul (fsub (Fin 1) alpha) f)"

text \<open>
  The distance of the filtered vector from the stored one, as both motion detectors
  compute it: the absolute differences \<open>dX\<close>, \<open>dY\<close>, \<open>dZ\<close> and the root of their squares.
\<close>

definition distance :: "flt \<Rightarrow> flt \<Rightarrow> flt \<Rightarrow> flt \<Rightarrow> flt \<Rightarrow> flt \<Rightarrow> flt" where
  "distance fX fY fZ pX pY pZ =
     (let dX = fabsf (fsub fX pX);
          dY = fabsf (fsub fY pY);
          dZ = fabsf (fsub fZ pZ)
      in fsqrt (fadd (fadd (fmul dX dX) (fmul dY dY)) (fmul dZ dZ)))"

record motionLP_state =
  mlp_setup :: "8 word"
  mlp_smpl :: "8 word"
  mlp_pX :: flt
  mlp_pY :: flt
  mlp_pZ :: flt
  mlp_fX :: flt
  mlp_fY :: flt
  mlp_fZ :: flt

definition motionLP_init :: motionLP_state where
  "motionLP_init = \<lparr>mlp_setup = 0, mlp_smpl = 0, mlp_pX = Fin 0, mlp_pY = Fin 0, mlp_pZ = Fin 0,
     mlp_fX = Fin 0, mlp_fY = Fin 0, mlp_fZ = Fin 0\<rparr>"

text \<open>The state after the low-pass update of a call, and the distance the call computes.\<close>

definition motionLP_filter :: "motionLP_state \<Rightarrow> flt \<Rightarrow> flt \<Rightarrow> flt \<Rightarrow> flt \<Rightarrow> motionLP_state" where
  "motionLP_filter s x y z alpha =
     s\<lparr>mlp_fX := low_pass alpha x (mlp_fX s),
       mlp_fY := low_pass alpha y (mlp_fY s),
       mlp_fZ := low_pass alpha z (mlp_fZ s)\<rparr>"

definition motionLP_m :: "motionLP_state \<Rightarrow> flt \<Rightarrow> flt \<Rightarrow> flt \<Rightarrow> flt \<Rightarrow> flt" where
  "motionLP_m s x y z alpha =
     (let t = motionLP_filter s x y z alpha
      in distance (mlp_fX t) (mlp_fY t) (mlp_fZ t) (mlp_pX t) (mlp_pY t) (mlp_pZ t))"

definition motionLP ::
  "motionLP_state \<Rightarrow> flt \<times> flt \<times> flt \<times> flt \<times> flt \<times> 8 word \<Rightarrow> flt \<times> motionLP_state" where
  "motionLP s = (\<lambda>(x, y, z, alpha, delta, sample).
     if mlp_setup s = 0 then
       (Fin 0, s\<lparr>mlp_fX := x, mlp_fY := y, mlp_fZ := z, mlp_setup := mlp_setup s + 1\<rparr>)
     else
       let t = motionLP_filter s x y z alpha in
       if mlp_setup t < CNTSETUP then
         (Fin 0, t\<lparr>mlp_pX := mlp_fX t, mlp_pY := mlp_fY t, mlp_pZ := mlp_fZ t,
                   mlp_setup := mlp_setup t + 1\<rparr>)
       else
         let t' = t\<lparr>mlp_smpl := mlp_smpl t + 1\<rparr> in
         if mlp_smpl t < sample then (Fin 0, t')
         else
         let u = t'\<lparr>mlp_smpl := 0\<rparr>;
             m = motionLP_m s x y z alpha
         in if flt_greater m delta then (m, u\<lparr>mlp_setup := 0\<rparr>) else (Fin 0, u))"

text \<open>
  The Kalman update of one axis is written out in the source for each axis:
  \<^verbatim>\<open>e += Q; K = e / (e + R); f += K * (x - f); e *= (1.0 - K);\<close>
\<close>

record motionK_state =
  mk_setup :: "8 word"
  mk_smpl :: "8 word"
  mk_fX :: flt
  mk_fY :: flt
  mk_fZ :: flt
  mk_eX :: flt
  mk_eY :: flt
  mk_eZ :: flt
  mk_pX :: flt
  mk_pY :: flt
  mk_pZ :: flt

definition motionK_init :: motionK_state where
  "motionK_init = \<lparr>mk_setup = 0, mk_smpl = 0, mk_fX = Fin 0, mk_fY = Fin 0, mk_fZ = Fin 0,
     mk_eX = Fin 0, mk_eY = Fin 0, mk_eZ = Fin 0, mk_pX = Fin 0, mk_pY = Fin 0, mk_pZ = Fin 0\<rparr>"

definition motionK_filter :: "motionK_state \<Rightarrow> flt \<Rightarrow> flt \<Rightarrow> flt \<Rightarrow> flt \<Rightarrow> flt \<Rightarrow> motionK_state" where
  "motionK_filter s x y z Q R =
     (let s1 = s\<lparr>mk_eX := fadd (mk_eX s) Q\<rparr>;
          K = fdiv (mk_eX s1) (fadd (mk_eX s1) R);
          s2 = s1\<lparr>mk_fX := fadd (mk_fX s1) (fmul K (fsub x (mk_fX s1)))\<rparr>;
          s3 = s2\<lparr>mk_eX := fmul (mk_eX s2) (fsub (Fin 1) K)\<rparr>;
          s4 = s3\<lparr>mk_eY := fadd (mk_eY s3) Q\<rparr>;
          K = fdiv (mk_eY s4) (fadd (mk_eY s4) R);
          s5 = s4\<lparr>mk_fY := fadd (mk_fY s4) (fmul K (fsub y (mk_fY s4)))\<rparr>;
          s6 = s5\<lparr>mk_eY := fmul (mk_eY s5) (fsub (Fin 1) K)\<rparr>;
          s7 = s6\<lparr>mk_eZ := fadd (mk_eZ s6) Q\<rparr>;
          K = fdiv (mk_eZ s7) (fadd (mk_eZ s7) R);
          s8 = s7\<lparr>mk_fZ := fadd (mk_fZ s7) (fmul K (fsub z (mk_fZ s7)))\<rparr>;
          s9 = s8\<lparr>mk_eZ := fmul (mk_eZ s8) (fsub (Fin 1) K)\<rparr>
      in s9)"

definition motionK_m :: "motionK_state \<Rightarrow> flt \<Rightarrow> flt \<Rightarrow> flt \<Rightarrow> flt \<Rightarrow> flt \<Rightarrow> flt" where
  "motionK_m s x y z Q R =
     (let t = motionK_filter s x y z Q R
      in distance (mk_fX t) (mk_fY t) (mk_fZ t) (mk_pX t) (mk_pY t) (mk_pZ t))"

definition motionK ::
  "motionK_state \<Rightarrow> flt \<times> flt \<times> flt \<times> flt \<times> flt \<times> flt \<times> flt \<times> 8 word \<Rightarrow> flt \<times> motionK_state" where
  "motionK s = (\<lambda>(x, y, z, Q, R, E, delta, sample).
     if mk_setup s = 0 then
       (Fin 0, s\<lparr>mk_fX := x, mk_fY := y, mk_fZ := z, mk_eX := E, mk_eY := E, mk_eZ := E,
                 mk_setup := mk_setup s + 1\<rparr>)
     else
       let t = motionK_filter s x y z Q R in
       if mk_setup t < CNTSETUP then
         (Fin 0, t\<lparr>mk_pX := mk_fX t, mk_pY := mk_fY t, mk_pZ := mk_fZ t,
                   mk_setup := mk_setup t + 1\<rparr>)
       else
         let t' = t\<lparr>mk_smpl := mk_smpl t + 1\<rparr> in
         if mk_smpl t < sample then (Fin 0, t')
         else
         let u = t'\<lparr>mk_smpl := 0\<rparr>;
             m = motionK_m s x y z Q R
         in if flt_greater m delta \<and> flt_less m (Fin 1) then (m, u\<lparr>mk_setup := 0\<rparr>)
            else (Fin 0, u))"

section \<open>Magnetic distortion detection\<close>

record distortionHP_state =
  dhp_setup :: "8 word"
  dhp_iX :: flt
  dhp_iY :: flt
  dhp_iZ :: flt
  dhp_oX :: flt
  dhp_oY :: flt
  dhp_oZ :: flt
  dhp_M :: flt

definition distortionHP_init :: distortionHP_state where
  "distortionHP_init = \<lparr>dhp_setup = 0, dhp_iX = Fin 0, dhp_iY = Fin 0, dhp_iZ = Fin 0,
     dhp_oX = Fin 0, dhp_oY = Fin 0, dhp_oZ = Fin 0, dhp_M = Fin 0\<rparr>"

definition distortionHP_filter :: "distortionHP_state \<Rightarrow> flt \<Rightarrow> flt \<Rightarrow> flt \<Rightarrow> flt \<Rightarrow> distortionHP_state" where
  "distortionHP_filter s x y z alpha =
     s\<lparr>dhp_oX := fmul alpha (fsub (fadd (dhp_oX s) x) (dhp_iX s)),
       dhp_oY := fmul alpha (fsub (fadd (dhp_oY s) y) (dhp_iY s)),
       dhp_oZ := fmul alpha (fsub (fadd (dhp_oZ s) z) (dhp_iZ s)),
       dhp_iX := x, dhp_iY := y, dhp_iZ := z\<rparr>"

definition distortionHP_m :: "distortionHP_state \<Rightarrow> flt \<Rightarrow> flt \<Rightarrow> flt \<Rightarrow> flt \<Rightarrow> flt" where
  "distortionHP_m s x y z alpha =
     (let t = distortionHP_filter s x y z alpha;
          dX = fsub (dhp_iX t) (dhp_oX t);
          dY = fsub (dhp_iY t) (dhp_oY t);
          dZ = fsub (dhp_iZ t) (dhp_oZ t)
      in fsqrt (fadd (fadd (fmul dX dX) (fmul dY dY)) (fmul dZ dZ)))"

definition distortionHP_d :: "distortionHP_state \<Rightarrow> flt \<Rightarrow> flt \<Rightarrow> flt \<Rightarrow> flt \<Rightarrow> flt" where
  "distortionHP_d s x y z alpha = fabsf (fsub (dhp_M s) (distortionHP_m s x y z alpha))"

definition distortionHP ::
  "distortionHP_state \<Rightarrow> flt \<times> flt \<times> flt \<times> flt \<times> flt \<Rightarrow> flt \<times> distortionHP_state" where
  "distortionHP s = (\<lambda>(x, y, z, alpha, delta).
     let t = distortionHP_filter s x y z alpha;
         m = distortionHP_m s x y z alpha
     in if dhp_setup t = 0 then (Fin 0, t\<lparr>dhp_M := m, dhp_setup := dhp_setup t + 1\<rparr>)
        else if dhp_setup t < CNTSETUP then
          (Fin 0, t\<lparr>dhp_M := low_pass alpha m (dhp_M t), dhp_setup := dhp_setup t + 1\<rparr>)
        else
          let d = distortionHP_d s x y z alpha
          in if flt_greater d delta then (d, t\<lparr>dhp_setup := 0\<rparr>) else (Fin 0, t))"

record distortionLP_state =
  dlp_setup :: "8 word"
  dlp_aX :: flt
  dlp_aY :: flt
  dlp_aZ :: flt

definition distortionLP_init :: distortionLP_state where
  "distortionLP_init = \<lparr>dlp_setup = 0, dlp_aX = Fin 0, dlp_aY = Fin 0, dlp_aZ = Fin 0\<rparr>"

text \<open>The differences are taken before the averages are updated.\<close>

definition distortionLP_m :: "distortionLP_state \<Rightarrow> flt \<Rightarrow> flt \<Rightarrow> flt \<Rightarrow> flt" where
  "distortionLP_m s x y z =
     (let dX = fsub x (dlp_aX s);
          dY = fsub y (dlp_aY s);
          dZ = fsub z (dlp_aZ s)
      in fsqrt (fadd (fadd (fmul dX dX) (fmul dY dY)) (fmul dZ dZ)))"

definition distortionLP ::
  "distortionLP_state \<Rightarrow> flt \<times> flt \<times> flt \<times> flt \<times> flt \<Rightarrow> flt \<times> distortionLP_state" where
  "distortionLP s = (\<lambda>(x, y, z, alpha, delta).
     if dlp_setup s = 0 then
       (Fin 0, s\<lparr>dlp_aX := x, dlp_aY := y, dlp_aZ := z, dlp_setup := dlp_setup s + 1\<rparr>)
     else
       let m = distortionLP_m s x y z;
           t = s\<lparr>dlp_aX := low_pass alpha x (dlp_aX s),
                 dlp_aY := low_pass alpha y (dlp_aY s),
                 dlp_aZ := low_pass alpha z (dlp_aZ s)\<rparr>
       in if dlp_setup t < CNTSETUP then (Fin 0, t\<lparr>dlp_setup := dlp_setup t + 1\<rparr>)
          else if flt_greater m delta then (m, t\<lparr>dlp_setup := 0\<rparr>)
          else (Fin 0, t))"

section \<open>Incline detection\<close>

record inclineLP_state =
  inc_setup :: "8 word"
  inc_aX :: flt
  inc_aY :: flt
  inc_aZ :: flt

definition inclineLP_init :: inclineLP_state where
  "inclineLP_init = \<lparr>inc_setup = 0, inc_aX = Fin 0, inc_aY = Fin 0, inc_aZ = Fin 0\<rparr>"

definition inclineLP_filter :: "inclineLP_state \<Rightarrow> flt \<Rightarrow> flt \<Rightarrow> flt \<Rightarrow> flt \<Rightarrow> inclineLP_state" where
  "inclineLP_filter s x y z alpha =
     s\<lparr>inc_aX := low_pass alpha x (inc_aX s),
       inc_aY := low_pass alpha y (inc_aY s),
       inc_aZ := low_pass alpha z (inc_aZ s)\<rparr>"

definition inclineLP_theta :: "inclineLP_state \<Rightarrow> flt \<Rightarrow> flt \<Rightarrow> flt \<Rightarrow> flt \<Rightarrow> flt" where
  "inclineLP_theta s x y z alpha =
     (let t = inclineLP_filter s x y z alpha
      in fmul (acosf (fdiv (inc_aZ t) (magnitude (inc_aX t) (inc_aY t) (inc_aZ t)))) RAD2DEG)"

definition inclineLP ::
  "inclineLP_state \<Rightarrow> flt \<times> flt \<times> flt \<times> flt \<times> flt \<Rightarrow> flt \<times> inclineLP_state" where
  "inclineLP s = (\<lambda>(x, y, z, alpha, delta).
     if inc_setup s = 0 then
       (Fin 0, s\<lparr>inc_aX := x, inc_aY := y, inc_aZ := z, inc_setup := inc_setup s + 1\<rparr>)
     else
       let t = inclineLP_filter s x y z alpha in
       if inc_setup t < CNTSETUP then (Fin 0, t\<lparr>inc_setup := inc_setup t + 1\<rparr>)
       else
         let theta = inclineLP_theta s x y z alpha
         in if flt_greater theta (fabsf delta) then (theta, t\<lparr>inc_setup := 0\<rparr>)
            else (Fin 0, t))"

section \<open>Orientation\<close>

text \<open>
  The arrays of three floats are indexed by the enumeration \<^verbatim>\<open>enum { X, Y, Z }\<close> of the
  source; the loop of \<^verbatim>\<open>orientK\<close> runs its index over 0, 1, 2, that is over \<open>X\<close>, \<open>Y\<close>, \<open>Z\<close>.
\<close>

datatype axis = X | Y | Z

type_synonym vec = "axis \<Rightarrow> flt"

definition vec3 :: "flt \<Rightarrow> flt \<Rightarrow> flt \<Rightarrow> vec" where
  "vec3 a b c = (\<lambda>i. case i of X \<Rightarrow> a | Y \<Rightarrow> b | Z \<Rightarrow> c)"

text \<open>
  The three angles, as both estimators compute them: pitch and roll from the filtered
  accelerometer vector, yaw from the two normalized vectors.
\<close>

definition pitch_of :: "flt \<Rightarrow> flt \<Rightarrow> flt \<Rightarrow> flt" where
  "pitch_of aX aY aZ = fmul (atan2f aX (fsqrt (fadd (fmul aY aY) (fmul aZ aZ)))) RAD2DEG"

definition roll_of :: "flt \<Rightarrow> flt \<Rightarrow> flt \<Rightarrow> flt" where
  "roll_of aX aY aZ = fmul (atan2f aY (fsqrt (fadd (fmul aX aX) (fmul aZ aZ)))) RAD2DEG"

definition yaw_of :: "flt \<Rightarrow> flt \<Rightarrow> flt \<Rightarrow> flt \<Rightarrow> flt \<Rightarrow> flt \<Rightarrow> flt" where
  "yaw_of aX aY aZ mX mY mZ =
     (let Mx = fsub (fmul mX aZ) (fmul mZ aX);
          My = fsub (fmul mY aZ) (fmul mZ aY)
      in fmul (atan2f My Mx) RAD2DEG)"

record orientLP_state =
  olp_setup :: "8 word"
  olp_aX :: flt
  olp_aY :: flt
  olp_aZ :: flt
  olp_mX :: flt
  olp_mY :: flt
  olp_mZ :: flt

definition orientLP_init :: orientLP_state where
  "orientLP_init = \<lparr>olp_setup = 0, olp_aX = Fin 0, olp_aY = Fin 0, olp_aZ = Fin 0,
     olp_mX = Fin 0, olp_mY = Fin 0, olp_mZ = Fin 0\<rparr>"

definition orientLP_filter :: "orientLP_state \<Rightarrow> vec \<Rightarrow> vec \<Rightarrow> flt \<Rightarrow> orientLP_state" where
  "orientLP_filter s a m alpha =
     s\<lparr>olp_aX := low_pass alpha (a X) (olp_aX s),
       olp_aY := low_pass alpha (a Y) (olp_aY s),
       olp_aZ := low_pass alpha (a Z) (olp_aZ s),
       olp_mX := low_pass alpha (m X) (olp_mX s),
       olp_mY := low_pass alpha (m Y) (olp_mY s),
       olp_mZ := low_pass alpha (m Z) (olp_mZ s)\<rparr>"

text \<open>
  The normalization divides the static variables themselves. The routine returns its
  status and, when it has written through the three pointers, the values written.
\<close>

definition orientLP_normalize :: "orientLP_state \<Rightarrow> orientLP_state" where
  "orientLP_normalize t =
     (let N = fsqrt (fadd (fadd (fmul (olp_aX t) (olp_aX t)) (fmul (olp_aY t) (olp_aY t)))
                (fmul (olp_aZ t) (olp_aZ t)));
          t1 = t\<lparr>olp_aX := fdiv (olp_aX t) N, olp_aY := fdiv (olp_aY t) N,
                 olp_aZ := fdiv (olp_aZ t) N\<rparr>;
          N = fsqrt (fadd (fadd (fmul (olp_mX t1) (olp_mX t1)) (fmul (olp_mY t1) (olp_mY t1)))
                (fmul (olp_mZ t1) (olp_mZ t1)));
          t2 = t1\<lparr>olp_mX := fdiv (olp_mX t1) N, olp_mY := fdiv (olp_mY t1) N,
                  olp_mZ := fdiv (olp_mZ t1) N\<rparr>
      in t2)"

definition orientLP ::
  "orientLP_state \<Rightarrow> vec \<times> vec \<times> flt \<Rightarrow> (8 word \<times> (flt \<times> flt \<times> flt) option) \<times> orientLP_state" where
  "orientLP s = (\<lambda>(a, m, alpha).
     if olp_setup s = 0 then
       ((1, None), s\<lparr>olp_aX := a X, olp_aY := a Y, olp_aZ := a Z,
                     olp_mX := m X, olp_mY := m Y, olp_mZ := m Z,
                     olp_setup := olp_setup s + 1\<rparr>)
     else
       let t = orientLP_filter s a m alpha in
       if olp_setup t < CNTSETUP then ((1, None), t\<lparr>olp_setup := olp_setup t + 1\<rparr>)
       else
         let pitch = pitch_of (olp_aX t) (olp_aY t) (olp_aZ t);
             roll = roll_of (olp_aX t) (olp_aY t) (olp_aZ t);
             u = orientLP_normalize t;
             yaw = yaw_of (olp_aX u) (olp_aY u) (olp_aZ u) (olp_mX u) (olp_mY u) (olp_mZ u)
         in ((0, Some (pitch, roll, yaw)), u))"

record orientK_state =
  ok_setup :: "8 word"
  ok_fA :: vec
  ok_fM :: vec
  ok_eA :: vec
  ok_eM :: vec

definition orientK_init :: orientK_state where
  "orientK_init = \<lparr>ok_setup = 0, ok_fA = (\<lambda>i. Fin 0), ok_fM = (\<lambda>i. Fin 0),
     ok_eA = (\<lambda>i. Fin 0), ok_eM = (\<lambda>i. Fin 0)\<rparr>"

text \<open>The body of the loop for the index \<open>i\<close>; the local \<open>N\<close> holds the Kalman coefficient.\<close>

definition orientK_axis :: "flt \<Rightarrow> flt \<Rightarrow> vec \<Rightarrow> vec \<Rightarrow> axis \<Rightarrow> orientK_state \<Rightarrow> orientK_state" where
  "orientK_axis Q R a m i s =
     (let s1 = s\<lparr>ok_eA := (ok_eA s)(i := fadd (ok_eA s i) Q)\<rparr>;
          N = fdiv (ok_eA s1 i) (fadd (ok_eA s1 i) R);
          s2 = s1\<lparr>ok_fA := (ok_fA s1)(i := fadd (ok_fA s1 i) (fmul N (fsub (a i) (ok_fA s1 i))))\<rparr>;
          s3 = s2\<lparr>ok_eA := (ok_eA s2)(i := fmul (ok_eA s2 i) (fsub (Fin 1) N))\<rparr>;
          s4 = s3\<lparr>ok_eM := (ok_eM s3)(i := fadd (ok_eM s3 i) Q)\<rparr>;
          N = fdiv (ok_eM s4 i) (fadd (ok_eM s4 i) R);
          s5 = s4\<lparr>ok_fM := (ok_fM s4)(i := fadd (ok_fM s4 i) (fmul N (fsub (m i) (ok_fM s4 i))))\<rparr>;
          s6 = s5\<lparr>ok_eM := (ok_eM s5)(i := fmul (ok_eM s5 i) (fsub (Fin 1) N))\<rparr>
      in s6)"

definition orientK_filter :: "orientK_state \<Rightarrow> vec \<Rightarrow> vec \<Rightarrow> flt \<Rightarrow> flt \<Rightarrow> orientK_state" where
  "orientK_filter s a m Q R = fold (orientK_axis Q R a m) [X, Y, Z] s"

definition orientK_normalize :: "orientK_state \<Rightarrow> orientK_state" where
  "orientK_normalize t =
     (let N = fsqrt (fadd (fadd (fmul (ok_fA t X) (ok_fA t X)) (fmul (ok_fA t Y) (ok_fA t Y)))
                (fmul (ok_fA t Z) (ok_fA t Z)));
          t1 = t\<lparr>ok_fA := (ok_fA t)(X := fdiv (ok_fA t X) N)\<rparr>;
          t2 = t1\<lparr>ok_fA := (ok_fA t1)(Y := fdiv (ok_fA t1 Y) N)\<rparr>;
          t3 = t2\<lparr>ok_fA := (ok_fA t2)(Z := fdiv (ok_fA t2 Z) N)\<rparr>;
          N = fsqrt (fadd (fadd (fmul (ok_fM t3 X) (ok_fM t3 X)) (fmul (ok_fM t3 Y) (ok_fM t3 Y)))
                (fmul (ok_fM t3 Z) (ok_fM t3 Z)));
          t4 = t3\<lparr>ok_fM := (ok_fM t3)(X := fdiv (ok_fM t3 X) N)\<rparr>;
          t5 = t4\<lparr>ok_fM := (ok_fM t4)(Y := fdiv (ok_fM t4 Y) N)\<rparr>;
          t6 = t5\<lparr>ok_fM := (ok_fM t5)(Z := fdiv (ok_fM t5 Z) N)\<rparr>
      in t6)"

definition orientK ::
  "orientK_state \<Rightarrow> vec \<times> vec \<times> flt \<times> flt \<times> flt \<Rightarrow> (8 word \<times> (flt \<times> flt \<times> flt) option) \<times> orientK_state" where
  "orientK s = (\<lambda>(a, m, Q, R, E).
     if ok_setup s = 0 then
       ((1, None), s\<lparr>ok_fA := vec3 (a X) (a Y) (a Z), ok_fM := vec3 (m X) (m Y) (m Z),
                     ok_eA := vec3 E E E, ok_eM := vec3 E E E,
                     ok_setup := ok_setup s + 1\<rparr>)
     else
       let t = orientK_filter s a m Q R in
       if ok_setup t < CNTSETUP then ((1, None), t\<lparr>ok_setup := ok_setup t + 1\<rparr>)
       else
         let pitch = pitch_of (ok_fA t X) (ok_fA t Y) (ok_fA t Z);
             roll = roll_of (ok_fA t X) (ok_fA t Y) (ok_fA t Z);
             u = orientK_normalize t;
             yaw = yaw_of (ok_fA u X) (ok_fA u Y) (ok_fA u Z) (ok_fM u X) (ok_fM u Y) (ok_fM u Z)
         in ((0, Some (pitch, roll, yaw)), u))"

text \<open>
  The recursion of the scalar Kalman filter in the words of the specification, on the
  pair of the estimate and the error of one axis: the error grows by \<open>Q\<close>, the gain is
  \<open>K = error / (error + R)\<close>, the estimate moves by \<open>K (measurement - estimate)\<close> and the
  error is scaled by \<open>1 - K\<close>.
\<close>

definition kalman_spec :: "flt \<Rightarrow> flt \<Rightarrow> flt \<Rightarrow> flt \<times> flt \<Rightarrow> flt \<times> flt" where
  "kalman_spec Q R measurement = (\<lambda>(estimate, error).
     (let error1 = fadd error Q;
          K = fdiv error1 (fadd error1 R)
      in (fadd estimate (fmul K (fsub measurement estimate)), fmul error1 (fsub (Fin 1) K))))"

section \<open>Arguments of a call\<close>

text \<open>The decimation factor \<^verbatim>\<open>sample\<close> among the arguments of a call.\<close>

definition motionLP_sample :: "flt \<times> flt \<times> flt \<times> flt \<times> flt \<times> 8 word \<Rightarrow> 8 word" where
  "motionLP_sample = (\<lambda>(x, y, z, alpha, delta, sample). sample)"

definition motionK_sample :: "flt \<times> flt \<times> flt \<times> flt \<times> flt \<times> flt \<times> flt \<times> 8 word \<Rightarrow> 8 word" where
  "motionK_sample = (\<lambda>(x, y, z, Q, R, E, delta, sample). sample)"

text \<open>The comparison \<^verbatim>\<open><=\<close>.\<close>

definition flt_le :: "flt \<Rightarrow> flt \<Rightarrow> bool" where
  "flt_le a b = (flt_less a b \<or> flt_eq a b)"

section \<open>The angles in the words of the specification\<close>

text \<open>
  In the arithmetic of the program: a vector is normalized by dividing each component by
  the root of the sum of the squares; pitch and roll are \<open>atan2\<close> of one component of the
  filtered accelerometer vector against the root of the squares of the two others; yaw is
  \<open>atan2 My Mx\<close> of the projection \<open>Mx = m\<^sub>x a\<^sub>z - m\<^sub>z a\<^sub>x\<close>, \<open>My = m\<^sub>y a\<^sub>z - m\<^sub>z a\<^sub>y\<close> of the two
  normalized vectors; each angle is converted to degrees by \<^verbatim>\<open>RAD2DEG\<close>.
\<close>

definition normalized :: "flt \<times> flt \<times> flt \<Rightarrow> flt \<times> flt \<times> flt" where
  "normalized = (\<lambda>(x, y, z).
     (fdiv x (magnitude x y z), fdiv y (magnitude x y z), fdiv z (magnitude x y z)))"


section \<open>The counters in the words of the specification\<close>

text \<open>
  The warm-up counter grows by one per call while it is below the warm-up length, stays at
  the warm-up length once it has reached it, and returns to 0 when the detector fires. The
  decimation counter grows by one per call while it is below the decimation factor and is
  reset otherwise.
\<close>

definition warmup_next :: "8 word \<Rightarrow> bool \<Rightarrow> 8 word" where
  "warmup_next c fired = (if c < CNTSETUP then c + 1 else if fired then 0 else c)"

definition decimation_next :: "8 word \<Rightarrow> 8 word \<Rightarrow> 8 word" where
  "decimation_next c sample = (if c < sample then c + 1 else 0)"

section \<open>Properties of the fall detector\<close>

lemma run_outs_length: "length (run_outs f s xs) = length xs"
  by (induction xs arbitrary: s) simp_all

lemma run_state_append: "run_state f s (xs @ ys) = run_state f (run_state f s xs) ys"
  by (induction xs arbitrary: s) simp_all

lemma run_outs_nth:
  "k < length xs \<Longrightarrow> run_outs f s xs ! k = fst (f (run_state f s (take k xs)) (xs ! k))"
proof (induction xs arbitrary: s k)
  case Nil
  then show ?case by simp
next
  case (Cons x xs)
  then show ?case by (cases k) simp_all
qed

lemma run_state_invariant:
  assumes "P s" and "\<And>t x. P t \<Longrightarrow> P (snd (f t x))"
  shows "P (run_state f s xs)"
  using assms(1)
proof (induction xs arbitrary: s)
  case Nil
  then show ?case by simp
next
  case (Cons x xs)
  then show ?case by (simp add: assms(2))
qed

text \<open>
  Claim C2. One call of \<^verbatim>\<open>detectFall\<close> on the magnitude \<open>M = sqrt (x\<^sup>2 + y\<^sup>2 + z\<^sup>2)\<close> moves
  Init to Weightlessness exactly when \<open>M < wThs\<close>, Weightlessness to Fall exactly when
  \<open>M > iThs\<close>, Fall to Init exactly when \<open>wThs + iThs == 0\<close>; on every other input the stage
  is kept, so Fall is latched; and the call returns the stage after the transition.
\<close>

theorem detectFall_transitions:
  "snd (detectFall STAGE_INIT (x, y, z, wThs, iThs)) =
     (if flt_less (magnitude x y z) wThs then STAGE_WEIGHLESSNESS else STAGE_INIT) \<and>
   snd (detectFall STAGE_WEIGHLESSNESS (x, y, z, wThs, iThs)) =
     (if flt_greater (magnitude x y z) iThs then STAGE_FALL else STAGE_WEIGHLESSNESS) \<and>
   snd (detectFall STAGE_FALL (x, y, z, wThs, iThs)) =
     (if flt_eq (fadd wThs iThs) (Fin 0) then STAGE_INIT else STAGE_FALL) \<and>
   fst (detectFall stage (x, y, z, wThs, iThs)) = snd (detectFall stage (x, y, z, wThs, iThs))"
  by (simp add: detectFall_def Let_def)

text \<open>
  The run of the specification: a magnitude of 0.05 below \<^verbatim>\<open>wThs = 0.3\<close>, then 2.5 above
  \<^verbatim>\<open>iThs = 2.0\<close>, then a call that is not the reset, then the reset with both thresholds 0.
\<close>

lemma magnitude_axis: "magnitude (Fin a) (Fin 0) (Fin 0) = Fin \<bar>a\<bar>"
  by (simp add: magnitude_def)

lemma detectFall_scenario:
  "run_outs detectFall STAGE_INIT
     [(Fin 0.05, Fin 0, Fin 0, Fin 0.3, Fin 2), (Fin 2.5, Fin 0, Fin 0, Fin 0.3, Fin 2),
      (Fin 1, Fin 0, Fin 0, Fin 0.3, Fin 2), (Fin 1, Fin 0, Fin 0, Fin 0, Fin 0)] =
     [STAGE_WEIGHLESSNESS, STAGE_FALL, STAGE_FALL, STAGE_INIT]"
  by (simp add: detectFall_def magnitude_axis flt_greater_def)

section \<open>Properties of the counters\<close>

lemma w8_succ: "(w::8 word) < 32 \<Longrightarrow> unat (w + 1) = unat w + 1"
  by (simp add: word_less_nat_alt unat_word_ariths)

lemma w8_succ_below: "(w::8 word) < v \<Longrightarrow> unat (w + 1) = unat w + 1"
  using unsigned_less [of v, where 'a = nat] by (simp add: word_less_nat_alt unat_word_ariths)

lemma prod_cases8:
  obtains a b c d e f g h where "y = (a, b, c, d, e, f, g, h)"
  by (cases y, cases "snd y" rule: prod_cases7) auto

lemma warmup_next_le: "c \<le> 32 \<Longrightarrow> warmup_next c fired \<le> 32"
  by (auto simp: warmup_next_def CNTSETUP_def word_le_nat_alt word_less_nat_alt w8_succ)

text \<open>From a state whose counter is 0, the counter counts the calls up to the 32nd.\<close>

lemma warmup_count:
  fixes g :: "'s \<Rightarrow> 8 word"
  assumes step: "\<And>t x. g t < 32 \<Longrightarrow> g (snd (f t x)) = g t + 1"
    and init: "g s = 0" and len: "length xs \<le> 32"
  shows "unat (g (run_state f s xs)) = length xs"
  using len
proof (induction xs rule: rev_induct)
  case Nil
  then show ?case by (simp add: init)
next
  case (snoc x xs)
  then have ih: "unat (g (run_state f s xs)) = length xs" and lt: "length xs < 32" by simp_all
  then have "g (run_state f s xs) < 32" by (simp add: word_less_nat_alt)
  then show ?case using ih by (simp add: run_state_append step w8_succ)
qed

lemma warmup_outputs:
  fixes g :: "'s \<Rightarrow> 8 word"
  assumes step: "\<And>t x. g t < 32 \<Longrightarrow> fst (f t x) = z \<and> g (snd (f t x)) = g t + 1"
    and init: "g s = 0" and k: "k < 32" "k < length xs"
  shows "run_outs f s xs ! k = z"
proof -
  have "unat (g (run_state f s (take k xs))) = length (take k xs)"
    by (rule warmup_count) (use step init k in simp_all)
  then have "g (run_state f s (take k xs)) < 32"
    using k by (simp add: word_less_nat_alt)
  then show ?thesis using k by (simp add: run_outs_nth step)
qed

lemma setup_bounded:
  fixes g :: "'s \<Rightarrow> 8 word"
  assumes step: "\<And>t x. \<exists>fired. g (snd (f t x)) = warmup_next (g t) fired"
    and init: "g s = 0"
  shows "g (run_state f s xs) \<le> 32"
proof (rule run_state_invariant)
  show "g s \<le> 32" by (simp add: init)
next
  fix t x assume "g t \<le> 32"
  then show "g (snd (f t x)) \<le> 32" using step [of t x] by (auto simp: warmup_next_le)
qed

lemma orientK_filter_setup: "ok_setup (orientK_filter s a m Q R) = ok_setup s"
  by (simp add: orientK_filter_def orientK_axis_def Let_def)

lemma orientK_normalize_setup: "ok_setup (orientK_normalize s) = ok_setup s"
  by (simp add: orientK_normalize_def Let_def)

lemma motionLP_warm:
  "mlp_setup s < 32 \<Longrightarrow> fst (motionLP s c) = Fin 0 \<and> mlp_setup (snd (motionLP s c)) = mlp_setup s + 1"
  by (simp add: case_prod_beta motionLP_def motionLP_filter_def CNTSETUP_def Let_def)

lemma motionLP_setup_step:
  "mlp_setup (snd (motionLP s (x, y, z, alpha, delta, sample))) = warmup_next (mlp_setup s) (\<not> mlp_smpl s < sample \<and> flt_greater (motionLP_m s x y z alpha) delta)"
  by (simp add: motionLP_def motionLP_filter_def warmup_next_def CNTSETUP_def Let_def)

lemma motionLP_bounded: "mlp_setup (run_state motionLP motionLP_init xs) \<le> 32"
proof (rule setup_bounded)
  fix t c show "\<exists>fired. mlp_setup (snd (motionLP t c)) = warmup_next (mlp_setup t) fired"
    by (cases c rule: prod_cases6) (auto simp only: motionLP_setup_step)
qed (simp add: motionLP_init_def)

lemma motionLP_quiet:
  "mlp_setup s = 0 \<Longrightarrow> k < 32 \<Longrightarrow> k < length xs \<Longrightarrow> run_outs motionLP s xs ! k = Fin 0"
  by (rule warmup_outputs [where g = mlp_setup]) (simp_all add: motionLP_warm)

lemma motionK_warm:
  "mk_setup s < 32 \<Longrightarrow> fst (motionK s c) = Fin 0 \<and> mk_setup (snd (motionK s c)) = mk_setup s + 1"
  by (simp add: case_prod_beta motionK_def motionK_filter_def CNTSETUP_def Let_def)

lemma motionK_setup_step:
  "mk_setup (snd (motionK s (x, y, z, Q, R, E, delta, sample))) = warmup_next (mk_setup s) (\<not> mk_smpl s < sample \<and> flt_greater (motionK_m s x y z Q R) delta \<and> flt_less (motionK_m s x y z Q R) (Fin 1))"
  by (simp add: motionK_def motionK_filter_def warmup_next_def CNTSETUP_def Let_def)

lemma motionK_bounded: "mk_setup (run_state motionK motionK_init xs) \<le> 32"
proof (rule setup_bounded)
  fix t c show "\<exists>fired. mk_setup (snd (motionK t c)) = warmup_next (mk_setup t) fired"
    by (cases c rule: prod_cases8) (auto simp only: motionK_setup_step)
qed (simp add: motionK_init_def)

lemma motionK_quiet:
  "mk_setup s = 0 \<Longrightarrow> k < 32 \<Longrightarrow> k < length xs \<Longrightarrow> run_outs motionK s xs ! k = Fin 0"
  by (rule warmup_outputs [where g = mk_setup]) (simp_all add: motionK_warm)

lemma distortionHP_warm:
  "dhp_setup s < 32 \<Longrightarrow> fst (distortionHP s c) = Fin 0 \<and> dhp_setup (snd (distortionHP s c)) = dhp_setup s + 1"
  by (simp add: case_prod_beta distortionHP_def distortionHP_filter_def CNTSETUP_def Let_def)

lemma distortionHP_setup_step:
  "dhp_setup (snd (distortionHP s (x, y, z, alpha, delta))) = warmup_next (dhp_setup s) (flt_greater (distortionHP_d s x y z alpha) delta)"
  by (simp add: distortionHP_def distortionHP_filter_def warmup_next_def CNTSETUP_def Let_def)

lemma distortionHP_bounded: "dhp_setup (run_state distortionHP distortionHP_init xs) \<le> 32"
proof (rule setup_bounded)
  fix t c show "\<exists>fired. dhp_setup (snd (distortionHP t c)) = warmup_next (dhp_setup t) fired"
    by (cases c rule: prod_cases5) (auto simp only: distortionHP_setup_step)
qed (simp add: distortionHP_init_def)

lemma distortionHP_quiet:
  "dhp_setup s = 0 \<Longrightarrow> k < 32 \<Longrightarrow> k < length xs \<Longrightarrow> run_outs distortionHP s xs ! k = Fin 0"
  by (rule warmup_outputs [where g = dhp_setup]) (simp_all add: distortionHP_warm)

lemma distortionLP_warm:
  "dlp_setup s < 32 \<Longrightarrow> fst (distortionLP s c) = Fin 0 \<and> dlp_setup (snd (distortionLP s c)) = dlp_setup s + 1"
  by (simp add: case_prod_beta distortionLP_def CNTSETUP_def Let_def)

lemma distortionLP_setup_step:
  "dlp_setup (snd (distortionLP s (x, y, z, alpha, delta))) = warmup_next (dlp_setup s) (flt_greater (distortionLP_m s x y z) delta)"
  by (simp add: distortionLP_def warmup_next_def CNTSETUP_def Let_def)

lemma distortionLP_bounded: "dlp_setup (run_state distortionLP distortionLP_init xs) \<le> 32"
proof (rule setup_bounded)
  fix t c show "\<exists>fired. dlp_setup (snd (distortionLP t c)) = warmup_next (dlp_setup t) fired"
    by (cases c rule: prod_cases5) (auto simp only: distortionLP_setup_step)
qed (simp add: distortionLP_init_def)

lemma distortionLP_quiet:
  "dlp_setup s = 0 \<Longrightarrow> k < 32 \<Longrightarrow> k < length xs \<Longrightarrow> run_outs distortionLP s xs ! k = Fin 0"
  by (rule warmup_outputs [where g = dlp_setup]) (simp_all add: distortionLP_warm)

lemma inclineLP_warm:
  "inc_setup s < 32 \<Longrightarrow> fst (inclineLP s c) = Fin 0 \<and> inc_setup (snd (inclineLP s c)) = inc_setup s + 1"
  by (simp add: case_prod_beta inclineLP_def inclineLP_filter_def CNTSETUP_def Let_def)

lemma inclineLP_setup_step:
  "inc_setup (snd (inclineLP s (x, y, z, alpha, delta))) = warmup_next (inc_setup s) (flt_greater (inclineLP_theta s x y z alpha) (fabsf delta))"
  by (simp add: inclineLP_def inclineLP_filter_def warmup_next_def CNTSETUP_def Let_def)

lemma inclineLP_bounded: "inc_setup (run_state inclineLP inclineLP_init xs) \<le> 32"
proof (rule setup_bounded)
  fix t c show "\<exists>fired. inc_setup (snd (inclineLP t c)) = warmup_next (inc_setup t) fired"
    by (cases c rule: prod_cases5) (auto simp only: inclineLP_setup_step)
qed (simp add: inclineLP_init_def)

lemma inclineLP_quiet:
  "inc_setup s = 0 \<Longrightarrow> k < 32 \<Longrightarrow> k < length xs \<Longrightarrow> run_outs inclineLP s xs ! k = Fin 0"
  by (rule warmup_outputs [where g = inc_setup]) (simp_all add: inclineLP_warm)

lemma orientLP_warm:
  "olp_setup s < 32 \<Longrightarrow> fst (orientLP s c) = (1, None) \<and> olp_setup (snd (orientLP s c)) = olp_setup s + 1"
  by (simp add: case_prod_beta orientLP_def orientLP_filter_def orientLP_normalize_def CNTSETUP_def Let_def)

lemma orientLP_setup_step:
  "olp_setup (snd (orientLP s (a, m, alpha))) = warmup_next (olp_setup s) (False)"
  by (simp add: orientLP_def orientLP_filter_def orientLP_normalize_def warmup_next_def CNTSETUP_def Let_def)

lemma orientLP_bounded: "olp_setup (run_state orientLP orientLP_init xs) \<le> 32"
proof (rule setup_bounded)
  fix t c show "\<exists>fired. olp_setup (snd (orientLP t c)) = warmup_next (olp_setup t) fired"
    by (cases c rule: prod_cases3) (auto simp only: orientLP_setup_step)
qed (simp add: orientLP_init_def)

lemma orientLP_quiet:
  "olp_setup s = 0 \<Longrightarrow> k < 32 \<Longrightarrow> k < length xs \<Longrightarrow> run_outs orientLP s xs ! k = (1, None)"
  by (rule warmup_outputs [where g = olp_setup]) (simp_all add: orientLP_warm)

lemma orientK_warm:
  "ok_setup s < 32 \<Longrightarrow> fst (orientK s c) = (1, None) \<and> ok_setup (snd (orientK s c)) = ok_setup s + 1"
  by (simp add: case_prod_beta orientK_def orientK_filter_setup orientK_normalize_setup CNTSETUP_def Let_def)

lemma orientK_setup_step:
  "ok_setup (snd (orientK s (a, m, Q, R, E))) = warmup_next (ok_setup s) (False)"
  by (simp add: orientK_def orientK_filter_setup orientK_normalize_setup warmup_next_def CNTSETUP_def Let_def)

lemma orientK_bounded: "ok_setup (run_state orientK orientK_init xs) \<le> 32"
proof (rule setup_bounded)
  fix t c show "\<exists>fired. ok_setup (snd (orientK t c)) = warmup_next (ok_setup t) fired"
    by (cases c rule: prod_cases5) (auto simp only: orientK_setup_step)
qed (simp add: orientK_init_def)

lemma orientK_quiet:
  "ok_setup s = 0 \<Longrightarrow> k < 32 \<Longrightarrow> k < length xs \<Longrightarrow> run_outs orientK s xs ! k = (1, None)"
  by (rule warmup_outputs [where g = ok_setup]) (simp_all add: orientK_warm)

lemma motionLP_smpl_step:
  "mlp_smpl (snd (motionLP s (x, y, z, alpha, delta, sample))) =
     (if mlp_setup s < CNTSETUP then mlp_smpl s else decimation_next (mlp_smpl s) sample)"
  by (simp add: motionLP_def motionLP_filter_def decimation_next_def CNTSETUP_def Let_def)

lemma motionK_smpl_step:
  "mk_smpl (snd (motionK s (x, y, z, Q, R, E, delta, sample))) =
     (if mk_setup s < CNTSETUP then mk_smpl s else decimation_next (mk_smpl s) sample)"
  by (simp add: motionK_def motionK_filter_def decimation_next_def CNTSETUP_def Let_def)

text \<open>
  Claim C3. Whatever the inputs, each of the first 32 calls of a detector returns the
  magnitude zero (\<^verbatim>\<open>motionLP\<close>, \<^verbatim>\<open>motionK\<close>, \<^verbatim>\<open>distortionHP\<close>, \<^verbatim>\<open>distortionLP\<close>, \<^verbatim>\<open>inclineLP\<close>) or
  the status 1, not ready, with no angle written (\<^verbatim>\<open>orientLP\<close>, \<^verbatim>\<open>orientK\<close>).
\<close>

theorem warmup_returns_nothing:
  assumes "k < 32"
  shows "(k < length i1 \<longrightarrow> run_outs motionLP motionLP_init i1 ! k = Fin 0) \<and>
         (k < length i2 \<longrightarrow> run_outs motionK motionK_init i2 ! k = Fin 0) \<and>
         (k < length i3 \<longrightarrow> run_outs distortionHP distortionHP_init i3 ! k = Fin 0) \<and>
         (k < length i4 \<longrightarrow> run_outs distortionLP distortionLP_init i4 ! k = Fin 0) \<and>
         (k < length i5 \<longrightarrow> run_outs inclineLP inclineLP_init i5 ! k = Fin 0) \<and>
         (k < length i6 \<longrightarrow> run_outs orientLP orientLP_init i6 ! k = (1, None)) \<and>
         (k < length i7 \<longrightarrow> run_outs orientK orientK_init i7 ! k = (1, None))"
  using assms
  by (simp add: motionLP_quiet motionK_quiet distortionHP_quiet distortionLP_quiet
      inclineLP_quiet orientLP_quiet orientK_quiet motionLP_init_def motionK_init_def
      distortionHP_init_def distortionLP_init_def inclineLP_init_def orientLP_init_def
      orientK_init_def)

theorem warmup_returns_nothing_witness:
  "run_outs motionLP motionLP_init (replicate 32 (PInf, NaN, Fin 1000, Fin 2, Fin (- 1), 0)) ! 31 = Fin 0 \<and>
   run_outs motionK motionK_init (replicate 32 (NInf, Fin 7, NaN, Fin 1, Fin 1, Fin 1, Fin 0, 0)) ! 31 = Fin 0 \<and>
   run_outs distortionHP distortionHP_init (replicate 32 (Fin 9, PInf, NaN, Fin 3, Fin (- 5))) ! 31 = Fin 0 \<and>
   run_outs distortionLP distortionLP_init (replicate 32 (Fin 9, PInf, NaN, Fin 3, Fin (- 5))) ! 31 = Fin 0 \<and>
   run_outs inclineLP inclineLP_init (replicate 32 (Fin 9, PInf, NaN, Fin 3, Fin 0)) ! 31 = Fin 0 \<and>
   run_outs orientLP orientLP_init (replicate 32 (vec3 NaN PInf (Fin 1), vec3 (Fin 0) (Fin 0) (Fin 0), Fin 7)) ! 31
     = (1, None) \<and>
   run_outs orientK orientK_init
     (replicate 32 (vec3 NaN PInf (Fin 1), vec3 (Fin 0) (Fin 0) (Fin 0), Fin 1, Fin 1, Fin 1)) ! 31 = (1, None)"
  using warmup_returns_nothing [of 31
      "replicate 32 (PInf, NaN, Fin 1000, Fin 2, Fin (- 1), 0)"
      "replicate 32 (NInf, Fin 7, NaN, Fin 1, Fin 1, Fin 1, Fin 0, 0)"
      "replicate 32 (Fin 9, PInf, NaN, Fin 3, Fin (- 5))"
      "replicate 32 (Fin 9, PInf, NaN, Fin 3, Fin (- 5))"
      "replicate 32 (Fin 9, PInf, NaN, Fin 3, Fin 0)"
      "replicate 32 (vec3 NaN PInf (Fin 1), vec3 (Fin 0) (Fin 0) (Fin 0), Fin 7)"
      "replicate 32 (vec3 NaN PInf (Fin 1), vec3 (Fin 0) (Fin 0) (Fin 0), Fin 1, Fin 1, Fin 1)"]
  by simp

text \<open>
  Claim C4. In every detector and over every sequence of calls the warm-up counter
  never exceeds 32; one call moves it as \<open>warmup_next\<close> says: up by one while it is below
  32, unchanged at 32, and back to 0 exactly when the call fires (the orientation
  estimators never fire). The decimation counter of the motion detectors is untouched
  during warm-up and moves as \<open>decimation_next\<close> says afterwards. Neither increment wraps
  around.
\<close>

theorem counters_saturate:
  "mlp_setup (run_state motionLP motionLP_init i1) \<le> 32 \<and>
   mk_setup (run_state motionK motionK_init i2) \<le> 32 \<and>
   dhp_setup (run_state distortionHP distortionHP_init i3) \<le> 32 \<and>
   dlp_setup (run_state distortionLP distortionLP_init i4) \<le> 32 \<and>
   inc_setup (run_state inclineLP inclineLP_init i5) \<le> 32 \<and>
   olp_setup (run_state orientLP orientLP_init i6) \<le> 32 \<and>
   ok_setup (run_state orientK orientK_init i7) \<le> 32 \<and>
   mlp_setup (snd (motionLP s1 (x, y, z, alpha, delta, sample))) =
     warmup_next (mlp_setup s1)
       (\<not> mlp_smpl s1 < sample \<and> flt_greater (motionLP_m s1 x y z alpha) delta) \<and>
   mk_setup (snd (motionK s2 (x, y, z, Q, R, E, delta, sample))) =
     warmup_next (mk_setup s2)
       (\<not> mk_smpl s2 < sample \<and> flt_greater (motionK_m s2 x y z Q R) delta \<and>
        flt_less (motionK_m s2 x y z Q R) (Fin 1)) \<and>
   dhp_setup (snd (distortionHP s3 (x, y, z, alpha, delta))) =
     warmup_next (dhp_setup s3) (flt_greater (distortionHP_d s3 x y z alpha) delta) \<and>
   dlp_setup (snd (distortionLP s4 (x, y, z, alpha, delta))) =
     warmup_next (dlp_setup s4) (flt_greater (distortionLP_m s4 x y z) delta) \<and>
   inc_setup (snd (inclineLP s5 (x, y, z, alpha, delta))) =
     warmup_next (inc_setup s5) (flt_greater (inclineLP_theta s5 x y z alpha) (fabsf delta)) \<and>
   olp_setup (snd (orientLP s6 (a, m, alpha))) = warmup_next (olp_setup s6) False \<and>
   ok_setup (snd (orientK s7 (a, m, Q, R, E))) = warmup_next (ok_setup s7) False \<and>
   mlp_smpl (snd (motionLP s1 (x, y, z, alpha, delta, sample))) =
     (if mlp_setup s1 < CNTSETUP then mlp_smpl s1 else decimation_next (mlp_smpl s1) sample) \<and>
   mk_smpl (snd (motionK s2 (x, y, z, Q, R, E, delta, sample))) =
     (if mk_setup s2 < CNTSETUP then mk_smpl s2 else decimation_next (mk_smpl s2) sample) \<and>
   (c \<le> CNTSETUP \<longrightarrow> warmup_next c fired \<le> CNTSETUP) \<and>
   (c < CNTSETUP \<longrightarrow> unat (warmup_next c fired) = unat c + 1) \<and>
   (d < n \<longrightarrow> unat (decimation_next d n) = unat d + 1)"
proof -
  have "c \<le> CNTSETUP \<longrightarrow> warmup_next c fired \<le> CNTSETUP"
    using warmup_next_le [of c fired] by (simp add: CNTSETUP_def)
  moreover have "c < CNTSETUP \<longrightarrow> unat (warmup_next c fired) = unat c + 1"
    by (simp add: warmup_next_def CNTSETUP_def w8_succ)
  moreover have "d < n \<longrightarrow> unat (decimation_next d n) = unat d + 1"
    by (simp add: decimation_next_def w8_succ_below)
  ultimately show ?thesis
    by (simp only: motionLP_bounded motionK_bounded distortionHP_bounded distortionLP_bounded
        inclineLP_bounded orientLP_bounded orientK_bounded motionLP_setup_step
        motionK_setup_step distortionHP_setup_step distortionLP_setup_step
        inclineLP_setup_step orientLP_setup_step orientK_setup_step motionLP_smpl_step
        motionK_smpl_step simp_thms)
qed

theorem counters_saturate_witness:
  "mlp_setup (run_state motionLP motionLP_init
      (replicate 300 (Fin 1, Fin 2, Fin 3, Fin (1 / 2), Fin 1, 2))) \<le> 32 \<and>
   (31 :: 8 word) < CNTSETUP \<and> warmup_next 31 False = 32 \<and>
   (32 :: 8 word) \<le> CNTSETUP \<and> warmup_next 32 False = 32 \<and> warmup_next 32 True = 0 \<and>
   (254 :: 8 word) < 255 \<and> unat (decimation_next 254 255) = 255"
  using counters_saturate [where ?i1.0 = "replicate 300 (Fin 1, Fin 2, Fin 3, Fin (1 / 2), Fin 1, 2)"
      and c = 31 and fired = False and d = 254 and n = 255]
  by (simp add: warmup_next_def CNTSETUP_def)

section \<open>Evaluating calls on one axis\<close>

text \<open>
  Closed forms of one call on finite values that differ from zero on the first axis
  only; they evaluate the concrete runs below.
\<close>

lemma replicate_numeral: "replicate (numeral k) x = x # replicate (pred_numeral k) x"
  by (simp add: numeral_eq_Suc)

lemma run_outs_append:
  "run_outs f s (xs @ ys) = run_outs f s xs @ run_outs f (run_state f s xs) ys"
  by (induction xs arbitrary: s) simp_all

lemma distance_axis: "distance (Fin a) (Fin 0) (Fin 0) (Fin b) (Fin 0) (Fin 0) = Fin \<bar>a - b\<bar>"
  by (simp add: distance_def fsub_def)

lemma motionLP_axis_step:
  "motionLP \<lparr>mlp_setup = c, mlp_smpl = k, mlp_pX = Fin p, mlp_pY = Fin 0, mlp_pZ = Fin 0,
      mlp_fX = Fin f, mlp_fY = Fin 0, mlp_fZ = Fin 0\<rparr> (Fin x, Fin 0, Fin 0, Fin al, Fin d, n) =
   (if c = 0 then
      (Fin 0, \<lparr>mlp_setup = 1, mlp_smpl = k, mlp_pX = Fin p, mlp_pY = Fin 0, mlp_pZ = Fin 0,
         mlp_fX = Fin x, mlp_fY = Fin 0, mlp_fZ = Fin 0\<rparr>)
    else if c < 32 then
      (Fin 0, \<lparr>mlp_setup = c + 1, mlp_smpl = k, mlp_pX = Fin (al * x + (1 - al) * f),
         mlp_pY = Fin 0, mlp_pZ = Fin 0,
         mlp_fX = Fin (al * x + (1 - al) * f), mlp_fY = Fin 0, mlp_fZ = Fin 0\<rparr>)
    else if k < n then
      (Fin 0, \<lparr>mlp_setup = c, mlp_smpl = k + 1, mlp_pX = Fin p, mlp_pY = Fin 0, mlp_pZ = Fin 0,
         mlp_fX = Fin (al * x + (1 - al) * f), mlp_fY = Fin 0, mlp_fZ = Fin 0\<rparr>)
    else if d < \<bar>al * x + (1 - al) * f - p\<bar> then
      (Fin \<bar>al * x + (1 - al) * f - p\<bar>,
       \<lparr>mlp_setup = 0, mlp_smpl = 0, mlp_pX = Fin p, mlp_pY = Fin 0, mlp_pZ = Fin 0,
         mlp_fX = Fin (al * x + (1 - al) * f), mlp_fY = Fin 0, mlp_fZ = Fin 0\<rparr>)
    else
      (Fin 0, \<lparr>mlp_setup = c, mlp_smpl = 0, mlp_pX = Fin p, mlp_pY = Fin 0, mlp_pZ = Fin 0,
         mlp_fX = Fin (al * x + (1 - al) * f), mlp_fY = Fin 0, mlp_fZ = Fin 0\<rparr>))"
  by (simp add: motionLP_def motionLP_filter_def motionLP_m_def low_pass_def fsub_def
      flt_greater_def distance_axis CNTSETUP_def Let_def)

lemma motionLP_axis_m:
  "motionLP_m \<lparr>mlp_setup = c, mlp_smpl = k, mlp_pX = Fin p, mlp_pY = Fin 0, mlp_pZ = Fin 0,
      mlp_fX = Fin f, mlp_fY = Fin 0, mlp_fZ = Fin 0\<rparr> (Fin x) (Fin 0) (Fin 0) (Fin al) =
   Fin \<bar>al * x + (1 - al) * f - p\<bar>"
  by (simp add: motionLP_filter_def motionLP_m_def low_pass_def fsub_def distance_axis)

lemma motionLP_calm:
  "run_state motionLP motionLP_init (replicate 32 (Fin 0, Fin 0, Fin 0, Fin (1 / 2), Fin 1, 2)) =
     \<lparr>mlp_setup = 32, mlp_smpl = 0, mlp_pX = Fin 0, mlp_pY = Fin 0, mlp_pZ = Fin 0,
       mlp_fX = Fin 0, mlp_fY = Fin 0, mlp_fZ = Fin 0\<rparr>"
  "run_outs motionLP motionLP_init (replicate 32 (Fin 0, Fin 0, Fin 0, Fin (1 / 2), Fin 1, 2)) =
     replicate 32 (Fin 0)"
  by (simp_all add: replicate_numeral motionLP_init_def motionLP_axis_step)

lemma motionK_axis_step:
  "e + Q + R \<noteq> 0 \<Longrightarrow>
   motionK \<lparr>mk_setup = c, mk_smpl = k, mk_fX = Fin f, mk_fY = Fin 0, mk_fZ = Fin 0,
      mk_eX = Fin e, mk_eY = Fin e, mk_eZ = Fin e, mk_pX = Fin p, mk_pY = Fin 0, mk_pZ = Fin 0\<rparr>
     (Fin x, Fin 0, Fin 0, Fin Q, Fin R, Fin E, Fin d, n) =
   (if c = 0 then
      (Fin 0, \<lparr>mk_setup = 1, mk_smpl = k, mk_fX = Fin x, mk_fY = Fin 0, mk_fZ = Fin 0,
         mk_eX = Fin E, mk_eY = Fin E, mk_eZ = Fin E, mk_pX = Fin p, mk_pY = Fin 0, mk_pZ = Fin 0\<rparr>)
    else if c < 32 then
      (Fin 0, \<lparr>mk_setup = c + 1, mk_smpl = k,
         mk_fX = Fin (f + (e + Q) / (e + Q + R) * (x - f)), mk_fY = Fin 0, mk_fZ = Fin 0,
         mk_eX = Fin ((e + Q) * (1 - (e + Q) / (e + Q + R))),
         mk_eY = Fin ((e + Q) * (1 - (e + Q) / (e + Q + R))),
         mk_eZ = Fin ((e + Q) * (1 - (e + Q) / (e + Q + R))),
         mk_pX = Fin (f + (e + Q) / (e + Q + R) * (x - f)), mk_pY = Fin 0, mk_pZ = Fin 0\<rparr>)
    else if k < n then
      (Fin 0, \<lparr>mk_setup = c, mk_smpl = k + 1,
         mk_fX = Fin (f + (e + Q) / (e + Q + R) * (x - f)), mk_fY = Fin 0, mk_fZ = Fin 0,
         mk_eX = Fin ((e + Q) * (1 - (e + Q) / (e + Q + R))),
         mk_eY = Fin ((e + Q) * (1 - (e + Q) / (e + Q + R))),
         mk_eZ = Fin ((e + Q) * (1 - (e + Q) / (e + Q + R))),
         mk_pX = Fin p, mk_pY = Fin 0, mk_pZ = Fin 0\<rparr>)
    else if d < \<bar>f + (e + Q) / (e + Q + R) * (x - f) - p\<bar> \<and>
            \<bar>f + (e + Q) / (e + Q + R) * (x - f) - p\<bar> < 1 then
      (Fin \<bar>f + (e + Q) / (e + Q + R) * (x - f) - p\<bar>,
       \<lparr>mk_setup = 0, mk_smpl = 0,
         mk_fX = Fin (f + (e + Q) / (e + Q + R) * (x - f)), mk_fY = Fin 0, mk_fZ = Fin 0,
         mk_eX = Fin ((e + Q) * (1 - (e + Q) / (e + Q + R))),
         mk_eY = Fin ((e + Q) * (1 - (e + Q) / (e + Q + R))),
         mk_eZ = Fin ((e + Q) * (1 - (e + Q) / (e + Q + R))),
         mk_pX = Fin p, mk_pY = Fin 0, mk_pZ = Fin 0\<rparr>)
    else
      (Fin 0, \<lparr>mk_setup = c, mk_smpl = 0,
         mk_fX = Fin (f + (e + Q) / (e + Q + R) * (x - f)), mk_fY = Fin 0, mk_fZ = Fin 0,
         mk_eX = Fin ((e + Q) * (1 - (e + Q) / (e + Q + R))),
         mk_eY = Fin ((e + Q) * (1 - (e + Q) / (e + Q + R))),
         mk_eZ = Fin ((e + Q) * (1 - (e + Q) / (e + Q + R))),
         mk_pX = Fin p, mk_pY = Fin 0, mk_pZ = Fin 0\<rparr>))"
  by (simp add: motionK_def motionK_filter_def motionK_m_def fsub_def
      flt_greater_def distance_axis CNTSETUP_def Let_def)

lemma motionK_axis_m:
  "e + Q + R \<noteq> 0 \<Longrightarrow>
   motionK_m \<lparr>mk_setup = c, mk_smpl = k, mk_fX = Fin f, mk_fY = Fin 0, mk_fZ = Fin 0,
      mk_eX = Fin e, mk_eY = Fin e, mk_eZ = Fin e, mk_pX = Fin p, mk_pY = Fin 0, mk_pZ = Fin 0\<rparr>
     (Fin x) (Fin 0) (Fin 0) (Fin Q) (Fin R) =
   Fin \<bar>f + (e + Q) / (e + Q + R) * (x - f) - p\<bar>"
  by (simp add: motionK_filter_def motionK_m_def fsub_def distance_axis Let_def)

lemma motionK_calm:
  "run_state motionK motionK_init (replicate 32 (Fin 0, Fin 0, Fin 0, Fin 0, Fin 1, Fin 1, Fin (1 / 4), 2)) =
     \<lparr>mk_setup = 32, mk_smpl = 0, mk_fX = Fin 0, mk_fY = Fin 0, mk_fZ = Fin 0,
       mk_eX = Fin (1 / 32), mk_eY = Fin (1 / 32), mk_eZ = Fin (1 / 32),
       mk_pX = Fin 0, mk_pY = Fin 0, mk_pZ = Fin 0\<rparr>"
  by (simp add: replicate_numeral motionK_init_def motionK_axis_step)


lemma distortionHP_axis_step:
  "distortionHP \<lparr>dhp_setup = c, dhp_iX = Fin i, dhp_iY = Fin 0, dhp_iZ = Fin 0,
      dhp_oX = Fin ox, dhp_oY = Fin 0, dhp_oZ = Fin 0, dhp_M = Fin M\<rparr>
     (Fin x, Fin 0, Fin 0, Fin al, Fin d) =
   (if c = 0 then
      (Fin 0, \<lparr>dhp_setup = 1, dhp_iX = Fin x, dhp_iY = Fin 0, dhp_iZ = Fin 0,
         dhp_oX = Fin (al * (ox + x - i)), dhp_oY = Fin 0, dhp_oZ = Fin 0,
         dhp_M = Fin \<bar>x - al * (ox + x - i)\<bar>\<rparr>)
    else if c < 32 then
      (Fin 0, \<lparr>dhp_setup = c + 1, dhp_iX = Fin x, dhp_iY = Fin 0, dhp_iZ = Fin 0,
         dhp_oX = Fin (al * (ox + x - i)), dhp_oY = Fin 0, dhp_oZ = Fin 0,
         dhp_M = Fin (al * \<bar>x - al * (ox + x - i)\<bar> + (1 - al) * M)\<rparr>)
    else if d < \<bar>M - \<bar>x - al * (ox + x - i)\<bar>\<bar> then
      (Fin \<bar>M - \<bar>x - al * (ox + x - i)\<bar>\<bar>,
       \<lparr>dhp_setup = 0, dhp_iX = Fin x, dhp_iY = Fin 0, dhp_iZ = Fin 0,
         dhp_oX = Fin (al * (ox + x - i)), dhp_oY = Fin 0, dhp_oZ = Fin 0, dhp_M = Fin M\<rparr>)
    else
      (Fin 0, \<lparr>dhp_setup = c, dhp_iX = Fin x, dhp_iY = Fin 0, dhp_iZ = Fin 0,
         dhp_oX = Fin (al * (ox + x - i)), dhp_oY = Fin 0, dhp_oZ = Fin 0, dhp_M = Fin M\<rparr>))"
  by (simp add: distortionHP_def distortionHP_filter_def distortionHP_m_def distortionHP_d_def
      low_pass_def fsub_def flt_greater_def CNTSETUP_def Let_def)

lemma distortionLP_axis_step:
  "distortionLP \<lparr>dlp_setup = c, dlp_aX = Fin a, dlp_aY = Fin 0, dlp_aZ = Fin 0\<rparr>
     (Fin x, Fin 0, Fin 0, Fin al, Fin d) =
   (if c = 0 then (Fin 0, \<lparr>dlp_setup = 1, dlp_aX = Fin x, dlp_aY = Fin 0, dlp_aZ = Fin 0\<rparr>)
    else if c < 32 then
      (Fin 0, \<lparr>dlp_setup = c + 1, dlp_aX = Fin (al * x + (1 - al) * a),
         dlp_aY = Fin 0, dlp_aZ = Fin 0\<rparr>)
    else if d < \<bar>x - a\<bar> then
      (Fin \<bar>x - a\<bar>, \<lparr>dlp_setup = 0, dlp_aX = Fin (al * x + (1 - al) * a),
         dlp_aY = Fin 0, dlp_aZ = Fin 0\<rparr>)
    else
      (Fin 0, \<lparr>dlp_setup = c, dlp_aX = Fin (al * x + (1 - al) * a),
         dlp_aY = Fin 0, dlp_aZ = Fin 0\<rparr>))"
  by (simp add: distortionLP_def distortionLP_m_def low_pass_def fsub_def flt_greater_def
      CNTSETUP_def Let_def)

lemma distortionHP_calm:
  "run_state distortionHP distortionHP_init
     (replicate 32 (Fin 0, Fin 0, Fin 0, Fin (1 / 2), Fin 1)) =
   \<lparr>dhp_setup = 32, dhp_iX = Fin 0, dhp_iY = Fin 0, dhp_iZ = Fin 0,
     dhp_oX = Fin 0, dhp_oY = Fin 0, dhp_oZ = Fin 0, dhp_M = Fin 0\<rparr>"
  by (simp add: replicate_numeral distortionHP_init_def distortionHP_axis_step)

lemma distortionLP_calm:
  "run_state distortionLP distortionLP_init
     (replicate 32 (Fin 0, Fin 0, Fin 0, Fin (1 / 2), Fin 1)) =
   \<lparr>dlp_setup = 32, dlp_aX = Fin 0, dlp_aY = Fin 0, dlp_aZ = Fin 0\<rparr>"
  by (simp add: replicate_numeral distortionLP_init_def distortionLP_axis_step)

lemma inclineLP_plane_step:
  "inclineLP \<lparr>inc_setup = c, inc_aX = Fin a, inc_aY = Fin 0, inc_aZ = Fin b\<rparr>
     (Fin x, Fin 0, Fin z, Fin al, Fin d) =
   (if c = 0 then (Fin 0, \<lparr>inc_setup = 1, inc_aX = Fin x, inc_aY = Fin 0, inc_aZ = Fin z\<rparr>)
    else if c < 32 then
      (Fin 0, \<lparr>inc_setup = c + 1, inc_aX = Fin (al * x + (1 - al) * a), inc_aY = Fin 0,
         inc_aZ = Fin (al * z + (1 - al) * b)\<rparr>)
    else if flt_greater
        (fmul (acosf (fdiv (Fin (al * z + (1 - al) * b))
           (Fin (sqrt ((al * x + (1 - al) * a) * (al * x + (1 - al) * a) +
                       (al * z + (1 - al) * b) * (al * z + (1 - al) * b)))))) RAD2DEG)
        (Fin \<bar>d\<bar>) then
      (fmul (acosf (fdiv (Fin (al * z + (1 - al) * b))
           (Fin (sqrt ((al * x + (1 - al) * a) * (al * x + (1 - al) * a) +
                       (al * z + (1 - al) * b) * (al * z + (1 - al) * b)))))) RAD2DEG,
       \<lparr>inc_setup = 0, inc_aX = Fin (al * x + (1 - al) * a), inc_aY = Fin 0,
         inc_aZ = Fin (al * z + (1 - al) * b)\<rparr>)
    else
      (Fin 0, \<lparr>inc_setup = c, inc_aX = Fin (al * x + (1 - al) * a), inc_aY = Fin 0,
         inc_aZ = Fin (al * z + (1 - al) * b)\<rparr>))"
  by (simp add: inclineLP_def inclineLP_filter_def inclineLP_theta_def magnitude_def
      low_pass_def fsub_def CNTSETUP_def Let_def)

lemma inclineLP_upright:
  "run_state inclineLP inclineLP_init (replicate 32 (Fin 0, Fin 0, Fin 1, Fin 1, Fin 1)) =
     \<lparr>inc_setup = 32, inc_aX = Fin 0, inc_aY = Fin 0, inc_aZ = Fin 1\<rparr>"
  by (simp add: replicate_numeral inclineLP_init_def inclineLP_plane_step)

section \<open>Decimation\<close>

lemma warmup_keeps:
  fixes g :: "'s \<Rightarrow> 8 word"
  assumes step: "\<And>t x. g t < 32 \<Longrightarrow> g (snd (f t x)) = g t + 1 \<and> h (snd (f t x)) = h t"
    and init: "g s = 0" and len: "length xs \<le> 32"
  shows "h (run_state f s xs) = h s"
  using len
proof (induction xs rule: rev_induct)
  case Nil
  then show ?case by simp
next
  case (snoc x xs)
  then have ih: "h (run_state f s xs) = h s" and lt: "length xs < 32" by simp_all
  have "unat (g (run_state f s xs)) = length xs"
    by (rule warmup_count) (use step init lt in simp_all)
  then have "g (run_state f s xs) < 32" using lt by (simp add: word_less_nat_alt)
  then show ?case using ih by (simp add: run_state_append step)
qed

lemma warmup_end:
  fixes g :: "'s \<Rightarrow> 8 word"
  assumes step: "\<And>t x. g t < 32 \<Longrightarrow> g (snd (f t x)) = g t + 1 \<and> h (snd (f t x)) = h t"
    and init: "g s = 0" and len: "length xs = 32"
  shows "g (run_state f s xs) = 32 \<and> h (run_state f s xs) = h s"
proof -
  have "unat (g (run_state f s xs)) = length xs"
    by (rule warmup_count) (use step init len in simp_all)
  then have "g (run_state f s xs) = 32"
    using len by (simp add: word_eq_iff_unsigned [where ?'a = nat])
  moreover have "h (run_state f s xs) = h s"
    by (rule warmup_keeps [where g = g]) (use step init len in simp_all)
  ultimately show ?thesis by simp
qed

lemma skip_window:
  fixes g :: "'s \<Rightarrow> 8 word"
  assumes step: "\<And>t c. C c \<Longrightarrow> P t \<Longrightarrow> g t < n \<Longrightarrow>
      fst (f t c) = z \<and> P (snd (f t c)) \<and> g (snd (f t c)) = g t + 1"
    and init: "P s" "g s = 0"
    and cs: "\<forall>c \<in> set cs. C c" "length cs \<le> unat n"
  shows "P (run_state f s cs) \<and> unat (g (run_state f s cs)) = length cs \<and>
         (\<forall>r \<in> set (run_outs f s cs). r = z)"
  using cs
proof (induction cs rule: rev_induct)
  case Nil
  then show ?case by (simp add: init)
next
  case (snoc c cs)
  let ?t = "run_state f s cs"
  have ih: "P ?t" "unat (g ?t) = length cs" "\<forall>r \<in> set (run_outs f s cs). r = z"
    using snoc by simp_all
  have lt: "g ?t < n" using ih(2) snoc.prems(2) by (simp add: word_less_nat_alt)
  have "C c" using snoc.prems(1) by simp
  from step [OF this ih(1) lt] show ?case
    using ih lt by (simp add: run_state_append run_outs_append w8_succ_below)
qed

lemma motionLP_after_warmup:
  "mlp_setup s = 32 \<Longrightarrow>
     motionLP s (x, y, z, alpha, delta, n) =
       (if mlp_smpl s < n
        then (Fin 0, (motionLP_filter s x y z alpha)\<lparr>mlp_smpl := mlp_smpl s + 1\<rparr>)
        else if flt_greater (motionLP_m s x y z alpha) delta
        then (motionLP_m s x y z alpha,
              (motionLP_filter s x y z alpha)\<lparr>mlp_smpl := 0, mlp_setup := 0\<rparr>)
        else (Fin 0, (motionLP_filter s x y z alpha)\<lparr>mlp_smpl := 0\<rparr>))"
  by (simp add: motionLP_def motionLP_filter_def CNTSETUP_def Let_def)

lemma motionK_after_warmup:
  "mk_setup s = 32 \<Longrightarrow>
     motionK s (x, y, z, Q, R, E, delta, n) =
       (if mk_smpl s < n
        then (Fin 0, (motionK_filter s x y z Q R)\<lparr>mk_smpl := mk_smpl s + 1\<rparr>)
        else if flt_greater (motionK_m s x y z Q R) delta \<and> flt_less (motionK_m s x y z Q R) (Fin 1)
        then (motionK_m s x y z Q R,
              (motionK_filter s x y z Q R)\<lparr>mk_smpl := 0, mk_setup := 0\<rparr>)
        else (Fin 0, (motionK_filter s x y z Q R)\<lparr>mk_smpl := 0\<rparr>))"
  by (simp add: motionK_def motionK_filter_def CNTSETUP_def Let_def)

lemma motionLP_skip_run:
  assumes "mlp_setup s = 32" "mlp_smpl s = 0"
    and "\<forall>c \<in> set cs. motionLP_sample c = n" and "length cs \<le> unat n"
  shows "mlp_setup (run_state motionLP s cs) = 32 \<and>
         unat (mlp_smpl (run_state motionLP s cs)) = length cs \<and>
         (\<forall>r \<in> set (run_outs motionLP s cs). r = Fin 0)"
proof (rule skip_window [where C = "\<lambda>c. motionLP_sample c = n"
      and P = "\<lambda>t. mlp_setup t = 32" and g = mlp_smpl and n = n])
  fix t :: motionLP_state and c :: "flt \<times> flt \<times> flt \<times> flt \<times> flt \<times> 8 word"
  assume "motionLP_sample c = n" "mlp_setup t = 32" "mlp_smpl t < n"
  then show "fst (motionLP t c) = Fin 0 \<and> mlp_setup (snd (motionLP t c)) = 32 \<and>
      mlp_smpl (snd (motionLP t c)) = mlp_smpl t + 1"
    by (cases c rule: prod_cases6)
      (simp add: motionLP_sample_def motionLP_after_warmup motionLP_filter_def)
qed (use assms in simp_all)

lemma motionK_skip_run:
  assumes "mk_setup s = 32" "mk_smpl s = 0"
    and "\<forall>c \<in> set cs. motionK_sample c = n" and "length cs \<le> unat n"
  shows "mk_setup (run_state motionK s cs) = 32 \<and>
         unat (mk_smpl (run_state motionK s cs)) = length cs \<and>
         (\<forall>r \<in> set (run_outs motionK s cs). r = Fin 0)"
proof (rule skip_window [where C = "\<lambda>c. motionK_sample c = n"
      and P = "\<lambda>t. mk_setup t = 32" and g = mk_smpl and n = n])
  fix t :: motionK_state and c :: "flt \<times> flt \<times> flt \<times> flt \<times> flt \<times> flt \<times> flt \<times> 8 word"
  assume "motionK_sample c = n" "mk_setup t = 32" "mk_smpl t < n"
  then show "fst (motionK t c) = Fin 0 \<and> mk_setup (snd (motionK t c)) = 32 \<and>
      mk_smpl (snd (motionK t c)) = mk_smpl t + 1"
    by (cases c rule: prod_cases8)
      (simp add: motionK_sample_def motionK_after_warmup motionK_filter_def Let_def)
qed (use assms in simp_all)

lemma motionLP_warmup_end:
  "length ws = 32 \<Longrightarrow>
     mlp_setup (run_state motionLP motionLP_init ws) = 32 \<and>
     mlp_smpl (run_state motionLP motionLP_init ws) = 0"
  using warmup_end [where f = motionLP and g = mlp_setup and h = mlp_smpl and s = motionLP_init
      and xs = ws]
  by (simp add: motionLP_warm motionLP_init_def case_prod_beta motionLP_def
      motionLP_filter_def CNTSETUP_def Let_def)

lemma motionK_warmup_end:
  "length ws = 32 \<Longrightarrow>
     mk_setup (run_state motionK motionK_init ws) = 32 \<and>
     mk_smpl (run_state motionK motionK_init ws) = 0"
  using warmup_end [where f = motionK and g = mk_setup and h = mk_smpl and s = motionK_init
      and xs = ws]
  by (simp add: motionK_warm motionK_init_def case_prod_beta motionK_def
      motionK_filter_def CNTSETUP_def Let_def)

text \<open>
  Claim C5, as stated, fails: with \<^verbatim>\<open>sample = 2\<close> the second call after warm-up returns 0
  although the distance 6 of the filtered vector from the snapshot exceeds \<^verbatim>\<open>delta = 1\<close>;
  the distance is compared on the third call, which returns 7.
\<close>

theorem decimation_counterexample:
  "run_outs motionLP motionLP_init
     (replicate 32 (Fin 0, Fin 0, Fin 0, Fin (1 / 2), Fin 1, 2) @
      replicate 3 (Fin 8, Fin 0, Fin 0, Fin (1 / 2), Fin 1, 2)) =
     replicate 34 (Fin 0) @ [Fin 7] \<and>
   motionLP_m
     (run_state motionLP motionLP_init
        (replicate 32 (Fin 0, Fin 0, Fin 0, Fin (1 / 2), Fin 1, 2) @
         [(Fin 8, Fin 0, Fin 0, Fin (1 / 2), Fin 1, 2)]))
     (Fin 8) (Fin 0) (Fin 0) (Fin (1 / 2)) = Fin 6 \<and>
   flt_greater (Fin 6) (Fin 1)"
  by (simp add: replicate_numeral motionLP_init_def motionLP_axis_step motionLP_axis_m
      flt_greater_def)

text \<open>
  Claim C5, amended. The warm-up of 32 calls ends with the warm-up counter at 32 and the
  decimation counter at 0. From such a state, calls that pass the same \<^verbatim>\<open>sample = n\<close> return
  0 whatever their inputs while at most \<open>n\<close> of them have been made, the decimation
  counter counting them. A call after warm-up compares the distance with \<^verbatim>\<open>delta\<close> exactly
  when the decimation counter is not below \<open>n\<close>, and resets that counter: the check is
  made on every \<open>(n + 1)\<close>-th call, not on every \<open>n\<close>-th.
\<close>

theorem decimation_window:
  "(length ws = 32 \<longrightarrow>
      mlp_setup (run_state motionLP motionLP_init ws) = 32 \<and>
      mlp_smpl (run_state motionLP motionLP_init ws) = 0) \<and>
   (mlp_setup s = 32 \<and> mlp_smpl s = 0 \<and> (\<forall>c \<in> set cs. motionLP_sample c = n) \<and>
    length cs \<le> unat n \<longrightarrow>
      (\<forall>r \<in> set (run_outs motionLP s cs). r = Fin 0) \<and>
      mlp_setup (run_state motionLP s cs) = 32 \<and>
      unat (mlp_smpl (run_state motionLP s cs)) = length cs) \<and>
   (mlp_setup s = 32 \<longrightarrow>
      motionLP s (x, y, z, alpha, delta, n) =
        (if mlp_smpl s < n
         then (Fin 0, (motionLP_filter s x y z alpha)\<lparr>mlp_smpl := mlp_smpl s + 1\<rparr>)
         else if flt_greater (motionLP_m s x y z alpha) delta
         then (motionLP_m s x y z alpha,
               (motionLP_filter s x y z alpha)\<lparr>mlp_smpl := 0, mlp_setup := 0\<rparr>)
         else (Fin 0, (motionLP_filter s x y z alpha)\<lparr>mlp_smpl := 0\<rparr>))) \<and>
   (length vs = 32 \<longrightarrow>
      mk_setup (run_state motionK motionK_init vs) = 32 \<and>
      mk_smpl (run_state motionK motionK_init vs) = 0) \<and>
   (mk_setup t = 32 \<and> mk_smpl t = 0 \<and> (\<forall>c \<in> set ds. motionK_sample c = n) \<and>
    length ds \<le> unat n \<longrightarrow>
      (\<forall>r \<in> set (run_outs motionK t ds). r = Fin 0) \<and>
      mk_setup (run_state motionK t ds) = 32 \<and>
      unat (mk_smpl (run_state motionK t ds)) = length ds) \<and>
   (mk_setup t = 32 \<longrightarrow>
      motionK t (x, y, z, Q, R, E, delta, n) =
        (if mk_smpl t < n
         then (Fin 0, (motionK_filter t x y z Q R)\<lparr>mk_smpl := mk_smpl t + 1\<rparr>)
         else if flt_greater (motionK_m t x y z Q R) delta \<and>
                 flt_less (motionK_m t x y z Q R) (Fin 1)
         then (motionK_m t x y z Q R,
               (motionK_filter t x y z Q R)\<lparr>mk_smpl := 0, mk_setup := 0\<rparr>)
         else (Fin 0, (motionK_filter t x y z Q R)\<lparr>mk_smpl := 0\<rparr>)))"
  using motionLP_warmup_end [of ws] motionLP_skip_run [of s cs n]
    motionLP_after_warmup [of s x y z alpha delta n]
    motionK_warmup_end [of vs] motionK_skip_run [of t ds n]
    motionK_after_warmup [of t x y z Q R E delta n]
  by blast

theorem decimation_window_witness:
  "length (replicate 32 (Fin 0, Fin 0, Fin 0, Fin (1 / 2), Fin 1, 2 :: 8 word)) = 32 \<and>
   mlp_setup (run_state motionLP motionLP_init
      (replicate 32 (Fin 0, Fin 0, Fin 0, Fin (1 / 2), Fin 1, 2))) = 32 \<and>
   mlp_smpl (run_state motionLP motionLP_init
      (replicate 32 (Fin 0, Fin 0, Fin 0, Fin (1 / 2), Fin 1, 2))) = 0 \<and>
   motionLP_sample (Fin 8, Fin 0, Fin 0, Fin (1 / 2), Fin 1, 2) = 2 \<and>
   length (replicate 2 (Fin 8, Fin 0, Fin 0, Fin (1 / 2), Fin 1, 2 :: 8 word)) \<le> unat (2 :: 8 word) \<and>
   unat (mlp_smpl (run_state motionLP
      (run_state motionLP motionLP_init (replicate 32 (Fin 0, Fin 0, Fin 0, Fin (1 / 2), Fin 1, 2)))
      (replicate 2 (Fin 8, Fin 0, Fin 0, Fin (1 / 2), Fin 1, 2)))) = 2 \<and>
   length (replicate 32 (Fin 0, Fin 0, Fin 0, Fin 0, Fin 1, Fin 1, Fin (1 / 4), 2 :: 8 word)) = 32 \<and>
   mk_setup (run_state motionK motionK_init
      (replicate 32 (Fin 0, Fin 0, Fin 0, Fin 0, Fin 1, Fin 1, Fin (1 / 4), 2))) = 32 \<and>
   mk_smpl (run_state motionK motionK_init
      (replicate 32 (Fin 0, Fin 0, Fin 0, Fin 0, Fin 1, Fin 1, Fin (1 / 4), 2))) = 0 \<and>
   motionK_sample (Fin 33, Fin 0, Fin 0, Fin 0, Fin 1, Fin 1, Fin (1 / 4), 2) = 2 \<and>
   unat (mk_smpl (run_state motionK
      (run_state motionK motionK_init
         (replicate 32 (Fin 0, Fin 0, Fin 0, Fin 0, Fin 1, Fin 1, Fin (1 / 4), 2)))
      (replicate 2 (Fin 33, Fin 0, Fin 0, Fin 0, Fin 1, Fin 1, Fin (1 / 4), 2)))) = 2"
  using decimation_window [where ws = "replicate 32 (Fin 0, Fin 0, Fin 0, Fin (1 / 2), Fin 1, 2)"
      and s = "run_state motionLP motionLP_init
        (replicate 32 (Fin 0, Fin 0, Fin 0, Fin (1 / 2), Fin 1, 2))"
      and cs = "replicate 2 (Fin 8, Fin 0, Fin 0, Fin (1 / 2), Fin 1, 2)" and n = 2
      and vs = "replicate 32 (Fin 0, Fin 0, Fin 0, Fin 0, Fin 1, Fin 1, Fin (1 / 4), 2)"
      and t = "run_state motionK motionK_init
        (replicate 32 (Fin 0, Fin 0, Fin 0, Fin 0, Fin 1, Fin 1, Fin (1 / 4), 2))"
      and ds = "replicate 2 (Fin 33, Fin 0, Fin 0, Fin 0, Fin 1, Fin 1, Fin (1 / 4), 2)"]
  by (simp add: motionLP_sample_def motionK_sample_def)

section \<open>Firing\<close>

lemma not_zero_if_positive: "flt_greater v (Fin 0) \<Longrightarrow> v \<noteq> Fin 0"
  by (auto simp: flt_greater_def)

lemma motionLP_fire: "fst (motionLP s c) \<noteq> Fin 0 \<Longrightarrow> mlp_setup (snd (motionLP s c)) = 0"
  by (simp add: case_prod_beta motionLP_def Let_def split: if_splits)

lemma motionK_fire: "fst (motionK s c) \<noteq> Fin 0 \<Longrightarrow> mk_setup (snd (motionK s c)) = 0"
  by (simp add: case_prod_beta motionK_def Let_def split: if_splits)

lemma distortionHP_fire:
  "fst (distortionHP s c) \<noteq> Fin 0 \<Longrightarrow> dhp_setup (snd (distortionHP s c)) = 0"
  by (simp add: case_prod_beta distortionHP_def Let_def split: if_splits)

lemma distortionLP_fire:
  "fst (distortionLP s c) \<noteq> Fin 0 \<Longrightarrow> dlp_setup (snd (distortionLP s c)) = 0"
  by (simp add: case_prod_beta distortionLP_def Let_def split: if_splits)

lemma inclineLP_fire: "fst (inclineLP s c) \<noteq> Fin 0 \<Longrightarrow> inc_setup (snd (inclineLP s c)) = 0"
  by (simp add: case_prod_beta inclineLP_def Let_def split: if_splits)

text \<open>
  Claim C6, as stated, fails for \<^verbatim>\<open>distortionHP\<close>: with \<^verbatim>\<open>alpha = 0.5\<close> and \<^verbatim>\<open>delta = 1\<close>, a
  single spike of \<open>2\<^sup>3\<^sup>0\<close> on the first axis of an otherwise zero stream fires on the call
  of the spike and a second time on the 33rd call after it.
\<close>

theorem firing_twice_counterexample:
  "run_outs distortionHP distortionHP_init
     (replicate 32 (Fin 0, Fin 0, Fin 0, Fin (1 / 2), Fin 1) @
      [(Fin 1073741824, Fin 0, Fin 0, Fin (1 / 2), Fin 1)] @
      replicate 33 (Fin 0, Fin 0, Fin 0, Fin (1 / 2), Fin 1)) =
   replicate 32 (Fin 0) @ [Fin 536870912] @ replicate 32 (Fin 0) @ [Fin 2]"
  by (simp add: replicate_numeral distortionHP_init_def distortionHP_axis_step)

text \<open>
  Claim C6, amended. A call that returns a positive magnitude resets the warm-up counter
  to 0 in the same call, and each of the next 32 calls returns 0 whatever its inputs, the
  repeated spike included.
\<close>

theorem fire_resets_warmup:
  "(flt_greater (fst (motionLP s1 c1)) (Fin 0) \<longrightarrow>
      mlp_setup (snd (motionLP s1 c1)) = 0 \<and>
      (\<forall>k < 32. k < length i1 \<longrightarrow> run_outs motionLP (snd (motionLP s1 c1)) i1 ! k = Fin 0)) \<and>
   (flt_greater (fst (motionK s2 c2)) (Fin 0) \<longrightarrow>
      mk_setup (snd (motionK s2 c2)) = 0 \<and>
      (\<forall>k < 32. k < length i2 \<longrightarrow> run_outs motionK (snd (motionK s2 c2)) i2 ! k = Fin 0)) \<and>
   (flt_greater (fst (distortionHP s3 c3)) (Fin 0) \<longrightarrow>
      dhp_setup (snd (distortionHP s3 c3)) = 0 \<and>
      (\<forall>k < 32. k < length i3 \<longrightarrow>
         run_outs distortionHP (snd (distortionHP s3 c3)) i3 ! k = Fin 0)) \<and>
   (flt_greater (fst (distortionLP s4 c4)) (Fin 0) \<longrightarrow>
      dlp_setup (snd (distortionLP s4 c4)) = 0 \<and>
      (\<forall>k < 32. k < length i4 \<longrightarrow>
         run_outs distortionLP (snd (distortionLP s4 c4)) i4 ! k = Fin 0)) \<and>
   (flt_greater (fst (inclineLP s5 c5)) (Fin 0) \<longrightarrow>
      inc_setup (snd (inclineLP s5 c5)) = 0 \<and>
      (\<forall>k < 32. k < length i5 \<longrightarrow> run_outs inclineLP (snd (inclineLP s5 c5)) i5 ! k = Fin 0))"
  using motionLP_fire [of s1 c1] motionK_fire [of s2 c2] distortionHP_fire [of s3 c3]
    distortionLP_fire [of s4 c4] inclineLP_fire [of s5 c5]
  by (auto dest!: not_zero_if_positive
      simp: motionLP_quiet motionK_quiet distortionHP_quiet distortionLP_quiet inclineLP_quiet)


theorem fire_resets_warmup_witness:
  "flt_greater (fst (motionLP
      (run_state motionLP motionLP_init (replicate 32 (Fin 0, Fin 0, Fin 0, Fin (1 / 2), Fin 1, 2)))
      (Fin 8, Fin 0, Fin 0, Fin (1 / 2), Fin 1, 0))) (Fin 0) \<and>
   run_outs motionLP (snd (motionLP
      (run_state motionLP motionLP_init (replicate 32 (Fin 0, Fin 0, Fin 0, Fin (1 / 2), Fin 1, 2)))
      (Fin 8, Fin 0, Fin 0, Fin (1 / 2), Fin 1, 0)))
      [(Fin 8, Fin 0, Fin 0, Fin (1 / 2), Fin 1, 0)] ! 0 = Fin 0 \<and>
   flt_greater (fst (motionK
      (run_state motionK motionK_init
         (replicate 32 (Fin 0, Fin 0, Fin 0, Fin 0, Fin 1, Fin 1, Fin (1 / 4), 2)))
      (Fin (33 / 2), Fin 0, Fin 0, Fin 0, Fin 1, Fin 1, Fin (1 / 4), 0))) (Fin 0) \<and>
   run_outs motionK (snd (motionK
      (run_state motionK motionK_init
         (replicate 32 (Fin 0, Fin 0, Fin 0, Fin 0, Fin 1, Fin 1, Fin (1 / 4), 2)))
      (Fin (33 / 2), Fin 0, Fin 0, Fin 0, Fin 1, Fin 1, Fin (1 / 4), 0)))
      [(Fin (33 / 2), Fin 0, Fin 0, Fin 0, Fin 1, Fin 1, Fin (1 / 4), 0)] ! 0 = Fin 0 \<and>
   flt_greater (fst (distortionHP
      (run_state distortionHP distortionHP_init
         (replicate 32 (Fin 0, Fin 0, Fin 0, Fin (1 / 2), Fin 1)))
      (Fin 8, Fin 0, Fin 0, Fin (1 / 2), Fin 1))) (Fin 0) \<and>
   run_outs distortionHP (snd (distortionHP
      (run_state distortionHP distortionHP_init
         (replicate 32 (Fin 0, Fin 0, Fin 0, Fin (1 / 2), Fin 1)))
      (Fin 8, Fin 0, Fin 0, Fin (1 / 2), Fin 1)))
      [(Fin 8, Fin 0, Fin 0, Fin (1 / 2), Fin 1)] ! 0 = Fin 0 \<and>
   flt_greater (fst (distortionLP
      (run_state distortionLP distortionLP_init
         (replicate 32 (Fin 0, Fin 0, Fin 0, Fin (1 / 2), Fin 1)))
      (Fin 8, Fin 0, Fin 0, Fin (1 / 2), Fin 1))) (Fin 0) \<and>
   run_outs distortionLP (snd (distortionLP
      (run_state distortionLP distortionLP_init
         (replicate 32 (Fin 0, Fin 0, Fin 0, Fin (1 / 2), Fin 1)))
      (Fin 8, Fin 0, Fin 0, Fin (1 / 2), Fin 1)))
      [(Fin 8, Fin 0, Fin 0, Fin (1 / 2), Fin 1)] ! 0 = Fin 0 \<and>
   flt_greater (fst (inclineLP
      (run_state inclineLP inclineLP_init (replicate 32 (Fin 0, Fin 0, Fin 1, Fin 1, Fin 1)))
      (Fin 1, Fin 0, Fin 0, Fin 1, Fin 1))) (Fin 0) \<and>
   run_outs inclineLP (snd (inclineLP
      (run_state inclineLP inclineLP_init (replicate 32 (Fin 0, Fin 0, Fin 1, Fin 1, Fin 1)))
      (Fin 1, Fin 0, Fin 0, Fin 1, Fin 1)))
      [(Fin 1, Fin 0, Fin 0, Fin 1, Fin 1)] ! 0 = Fin 0"
  using fire_resets_warmup [where
      ?s1.0 = "run_state motionLP motionLP_init
        (replicate 32 (Fin 0, Fin 0, Fin 0, Fin (1 / 2), Fin 1, 2))"
      and ?c1.0 = "(Fin 8, Fin 0, Fin 0, Fin (1 / 2), Fin 1, 0)"
      and ?i1.0 = "[(Fin 8, Fin 0, Fin 0, Fin (1 / 2), Fin 1, 0)]"
      and ?s2.0 = "run_state motionK motionK_init
        (replicate 32 (Fin 0, Fin 0, Fin 0, Fin 0, Fin 1, Fin 1, Fin (1 / 4), 2))"
      and ?c2.0 = "(Fin (33 / 2), Fin 0, Fin 0, Fin 0, Fin 1, Fin 1, Fin (1 / 4), 0)"
      and ?i2.0 = "[(Fin (33 / 2), Fin 0, Fin 0, Fin 0, Fin 1, Fin 1, Fin (1 / 4), 0)]"
      and ?s3.0 = "run_state distortionHP distortionHP_init
        (replicate 32 (Fin 0, Fin 0, Fin 0, Fin (1 / 2), Fin 1))"
      and ?c3.0 = "(Fin 8, Fin 0, Fin 0, Fin (1 / 2), Fin 1)"
      and ?i3.0 = "[(Fin 8, Fin 0, Fin 0, Fin (1 / 2), Fin 1)]"
      and ?s4.0 = "run_state distortionLP distortionLP_init
        (replicate 32 (Fin 0, Fin 0, Fin 0, Fin (1 / 2), Fin 1))"
      and ?c4.0 = "(Fin 8, Fin 0, Fin 0, Fin (1 / 2), Fin 1)"
      and ?i4.0 = "[(Fin 8, Fin 0, Fin 0, Fin (1 / 2), Fin 1)]"
      and ?s5.0 = "run_state inclineLP inclineLP_init
        (replicate 32 (Fin 0, Fin 0, Fin 1, Fin 1, Fin 1))"
      and ?c5.0 = "(Fin 1, Fin 0, Fin 0, Fin 1, Fin 1)"
      and ?i5.0 = "[(Fin 1, Fin 0, Fin 0, Fin 1, Fin 1)]"]
    pi_ge_two
  by (simp add: motionLP_calm motionK_calm distortionHP_calm distortionLP_calm
      inclineLP_upright motionLP_axis_step motionK_axis_step distortionHP_axis_step
      distortionLP_axis_step inclineLP_plane_step flt_greater_def RAD2DEG_def)

section \<open>The ceiling of the Kalman motion detector\<close>

lemma flt_le_not_less: "flt_le b m \<Longrightarrow> \<not> flt_less m b"
  by (cases m; cases b) (auto simp: flt_le_def)

lemma warmup_next_zero: "warmup_next c fired = 0 \<Longrightarrow> fired"
  using w8_succ [of c] by (auto simp: warmup_next_def CNTSETUP_def split: if_splits)

lemma warmup_next_quiet: "warmup_next c False \<noteq> 0"
  using warmup_next_zero [of c False] by blast

lemma motionK_value:
  "fst (motionK s (x, y, z, Q, R, E, delta, n)) =
     (if \<not> mk_setup s < CNTSETUP \<and> \<not> mk_smpl s < n \<and>
         flt_greater (motionK_m s x y z Q R) delta \<and> flt_less (motionK_m s x y z Q R) (Fin 1)
      then motionK_m s x y z Q R else Fin 0)"
  by (simp add: motionK_def motionK_filter_def CNTSETUP_def Let_def)

text \<open>
  Claim C9. \<^verbatim>\<open>motionK\<close> returns a non-zero value or puts its warm-up counter back to 0 only
  when the distance \<open>m\<close> it has computed satisfies \<open>m > delta\<close> and \<open>m < 1.0\<close>, and it then
  returns \<open>m\<close> and resets the counter; when \<open>1.0 \<le> m\<close> the call returns 0 and the counter
  moves as in a call that does not fire, so it is not reset.
\<close>

theorem motionK_ceiling:
  "(fst (motionK s (x, y, z, Q, R, E, delta, n)) \<noteq> Fin 0 \<or>
    mk_setup (snd (motionK s (x, y, z, Q, R, E, delta, n))) = 0 \<longrightarrow>
      flt_greater (motionK_m s x y z Q R) delta \<and> flt_less (motionK_m s x y z Q R) (Fin 1) \<and>
      fst (motionK s (x, y, z, Q, R, E, delta, n)) = motionK_m s x y z Q R \<and>
      mk_setup (snd (motionK s (x, y, z, Q, R, E, delta, n))) = 0) \<and>
   (flt_le (Fin 1) (motionK_m s x y z Q R) \<longrightarrow>
      fst (motionK s (x, y, z, Q, R, E, delta, n)) = Fin 0 \<and>
      mk_setup (snd (motionK s (x, y, z, Q, R, E, delta, n))) = warmup_next (mk_setup s) False \<and>
      mk_setup (snd (motionK s (x, y, z, Q, R, E, delta, n))) \<noteq> 0)"
proof -
  let ?m = "motionK_m s x y z Q R"
  let ?fired = "\<not> mk_smpl s < n \<and> flt_greater ?m delta \<and> flt_less ?m (Fin 1)"
  have step: "mk_setup (snd (motionK s (x, y, z, Q, R, E, delta, n))) =
      warmup_next (mk_setup s) ?fired"
    by (rule motionK_setup_step)
  have val: "fst (motionK s (x, y, z, Q, R, E, delta, n)) =
      (if \<not> mk_setup s < CNTSETUP \<and> ?fired then ?m else Fin 0)"
    by (simp add: motionK_value)
  have a: "fst (motionK s (x, y, z, Q, R, E, delta, n)) \<noteq> Fin 0 \<Longrightarrow>
      \<not> mk_setup s < CNTSETUP \<and> ?fired"
    using val by (auto split: if_splits)
  have b: "mk_setup (snd (motionK s (x, y, z, Q, R, E, delta, n))) = 0 \<Longrightarrow>
      \<not> mk_setup s < CNTSETUP \<and> ?fired"
    using step warmup_next_zero [of "mk_setup s" ?fired] w8_succ [of "mk_setup s"]
    by (auto simp: warmup_next_def CNTSETUP_def split: if_splits)
  have c: "\<not> mk_setup s < CNTSETUP \<and> ?fired \<Longrightarrow>
      fst (motionK s (x, y, z, Q, R, E, delta, n)) = ?m \<and>
      mk_setup (snd (motionK s (x, y, z, Q, R, E, delta, n))) = 0"
    using val step by (simp add: warmup_next_def)
  have d: "flt_le (Fin 1) ?m \<Longrightarrow>
      fst (motionK s (x, y, z, Q, R, E, delta, n)) = Fin 0 \<and>
      mk_setup (snd (motionK s (x, y, z, Q, R, E, delta, n))) = warmup_next (mk_setup s) False"
    using val step flt_le_not_less [of "Fin 1" ?m] by simp
  show ?thesis using a b c d warmup_next_quiet [of "mk_setup s"] by metis
qed

theorem motionK_ceiling_witness:
  "flt_le (Fin 1) (motionK_m
      (run_state motionK motionK_init
         (replicate 32 (Fin 0, Fin 0, Fin 0, Fin 0, Fin 1, Fin 1, Fin (1 / 4), 2)))
      (Fin 66) (Fin 0) (Fin 0) (Fin 0) (Fin 1)) \<and>
   motionK (run_state motionK motionK_init
         (replicate 32 (Fin 0, Fin 0, Fin 0, Fin 0, Fin 1, Fin 1, Fin (1 / 4), 2)))
      (Fin 66, Fin 0, Fin 0, Fin 0, Fin 1, Fin 1, Fin (1 / 4), 0) =
     (Fin 0, \<lparr>mk_setup = 32, mk_smpl = 0, mk_fX = Fin 2, mk_fY = Fin 0, mk_fZ = Fin 0,
        mk_eX = Fin (1 / 33), mk_eY = Fin (1 / 33), mk_eZ = Fin (1 / 33),
        mk_pX = Fin 0, mk_pY = Fin 0, mk_pZ = Fin 0\<rparr>) \<and>
   motionK (run_state motionK motionK_init
         (replicate 32 (Fin 0, Fin 0, Fin 0, Fin 0, Fin 1, Fin 1, Fin (1 / 4), 2)))
      (Fin (33 / 2), Fin 0, Fin 0, Fin 0, Fin 1, Fin 1, Fin (1 / 4), 0) =
     (Fin (1 / 2), \<lparr>mk_setup = 0, mk_smpl = 0, mk_fX = Fin (1 / 2), mk_fY = Fin 0, mk_fZ = Fin 0,
        mk_eX = Fin (1 / 33), mk_eY = Fin (1 / 33), mk_eZ = Fin (1 / 33),
        mk_pX = Fin 0, mk_pY = Fin 0, mk_pZ = Fin 0\<rparr>)"
  using motionK_ceiling [of "run_state motionK motionK_init
         (replicate 32 (Fin 0, Fin 0, Fin 0, Fin 0, Fin 1, Fin 1, Fin (1 / 4), 2))"
      "Fin 66" "Fin 0" "Fin 0" "Fin 0" "Fin 1" "Fin 1" "Fin (1 / 4)" 0]
    motionK_ceiling [of "run_state motionK motionK_init
         (replicate 32 (Fin 0, Fin 0, Fin 0, Fin 0, Fin 1, Fin 1, Fin (1 / 4), 2))"
      "Fin (33 / 2)" "Fin 0" "Fin 0" "Fin 0" "Fin 1" "Fin 1" "Fin (1 / 4)" 0]
  by (simp add: motionK_calm motionK_axis_step motionK_axis_m flt_le_def)

section \<open>The Kalman recursion\<close>

lemma motionK_filter_kalman:
  "(mk_fX (motionK_filter s x y z Q R), mk_eX (motionK_filter s x y z Q R)) =
     kalman_spec Q R x (mk_fX s, mk_eX s) \<and>
   (mk_fY (motionK_filter s x y z Q R), mk_eY (motionK_filter s x y z Q R)) =
     kalman_spec Q R y (mk_fY s, mk_eY s) \<and>
   (mk_fZ (motionK_filter s x y z Q R), mk_eZ (motionK_filter s x y z Q R)) =
     kalman_spec Q R z (mk_fZ s, mk_eZ s)"
  by (simp add: motionK_filter_def kalman_spec_def Let_def)

lemma motionK_later_call:
  "mk_setup s \<noteq> 0 \<Longrightarrow>
     mk_fX (snd (motionK s (x, y, z, Q, R, E, delta, n))) = mk_fX (motionK_filter s x y z Q R) \<and>
     mk_fY (snd (motionK s (x, y, z, Q, R, E, delta, n))) = mk_fY (motionK_filter s x y z Q R) \<and>
     mk_fZ (snd (motionK s (x, y, z, Q, R, E, delta, n))) = mk_fZ (motionK_filter s x y z Q R) \<and>
     mk_eX (snd (motionK s (x, y, z, Q, R, E, delta, n))) = mk_eX (motionK_filter s x y z Q R) \<and>
     mk_eY (snd (motionK s (x, y, z, Q, R, E, delta, n))) = mk_eY (motionK_filter s x y z Q R) \<and>
     mk_eZ (snd (motionK s (x, y, z, Q, R, E, delta, n))) = mk_eZ (motionK_filter s x y z Q R)"
  by (simp add: motionK_def Let_def)

lemma motionK_first_call:
  "mk_setup s = 0 \<Longrightarrow>
     motionK s (x, y, z, Q, R, E, delta, n) =
       (Fin 0, s\<lparr>mk_fX := x, mk_fY := y, mk_fZ := z, mk_eX := E, mk_eY := E, mk_eZ := E,
                 mk_setup := 1\<rparr>)"
  by (simp add: motionK_def)

lemma orientK_filter_kalman:
  "(ok_fA (orientK_filter u a m Q R) i, ok_eA (orientK_filter u a m Q R) i) =
     kalman_spec Q R (a i) (ok_fA u i, ok_eA u i) \<and>
   (ok_fM (orientK_filter u a m Q R) i, ok_eM (orientK_filter u a m Q R) i) =
     kalman_spec Q R (m i) (ok_fM u i, ok_eM u i)"
  by (cases i) (simp_all add: orientK_filter_def orientK_axis_def kalman_spec_def Let_def)

lemma orientK_first_call:
  "ok_setup u = 0 \<Longrightarrow>
     orientK u (a, m, Q, R, E) =
       ((1, None), u\<lparr>ok_fA := vec3 (a X) (a Y) (a Z), ok_fM := vec3 (m X) (m Y) (m Z),
          ok_eA := vec3 E E E, ok_eM := vec3 E E E, ok_setup := 1\<rparr>)"
  by (simp add: orientK_def)

lemma orientK_later_call:
  "ok_setup u \<noteq> 0 \<Longrightarrow>
     snd (orientK u (a, m, Q, R, E)) =
       (if ok_setup u < CNTSETUP then (orientK_filter u a m Q R)\<lparr>ok_setup := ok_setup u + 1\<rparr>
        else orientK_normalize (orientK_filter u a m Q R))"
  by (simp add: orientK_def orientK_filter_setup Let_def)

lemma orientK_started:
  "cs \<noteq> [] \<Longrightarrow> ok_setup (run_state orientK orientK_init cs) \<noteq> 0"
proof (induction cs rule: rev_induct)
  case Nil
  then show ?case by simp
next
  case (snoc c cs)
  obtain a m Q R E where c: "c = (a, m, Q, R, E)" by (cases c rule: prod_cases5)
  show ?case
    by (simp add: run_state_append c orientK_setup_step warmup_next_quiet)
qed


text \<open>
  Claim C8, as stated, fails for \<^verbatim>\<open>motionK\<close>: the 33rd call of the run below fires, and the
  34th call, which is not the first, stores the measurement 3 and the seed error 1
  instead of the values \<open>39/68\<close> and \<open>1/34\<close> of the recursion.
\<close>

theorem kalman_reseeded_counterexample:
  "fst (motionK
      (run_state motionK motionK_init
         (replicate 32 (Fin 0, Fin 0, Fin 0, Fin 0, Fin 1, Fin 1, Fin (1 / 4), 2)))
      (Fin (33 / 2), Fin 0, Fin 0, Fin 0, Fin 1, Fin 1, Fin (1 / 4), 0)) = Fin (1 / 2) \<and>
   (mk_fX (run_state motionK motionK_init
       (replicate 32 (Fin 0, Fin 0, Fin 0, Fin 0, Fin 1, Fin 1, Fin (1 / 4), 2) @
        [(Fin (33 / 2), Fin 0, Fin 0, Fin 0, Fin 1, Fin 1, Fin (1 / 4), 0),
         (Fin 3, Fin 0, Fin 0, Fin 0, Fin 1, Fin 1, Fin (1 / 4), 0)])),
    mk_eX (run_state motionK motionK_init
       (replicate 32 (Fin 0, Fin 0, Fin 0, Fin 0, Fin 1, Fin 1, Fin (1 / 4), 2) @
        [(Fin (33 / 2), Fin 0, Fin 0, Fin 0, Fin 1, Fin 1, Fin (1 / 4), 0),
         (Fin 3, Fin 0, Fin 0, Fin 0, Fin 1, Fin 1, Fin (1 / 4), 0)]))) = (Fin 3, Fin 1) \<and>
   kalman_spec (Fin 0) (Fin 1) (Fin 3)
     (mk_fX (run_state motionK motionK_init
        (replicate 32 (Fin 0, Fin 0, Fin 0, Fin 0, Fin 1, Fin 1, Fin (1 / 4), 2) @
         [(Fin (33 / 2), Fin 0, Fin 0, Fin 0, Fin 1, Fin 1, Fin (1 / 4), 0)])),
      mk_eX (run_state motionK motionK_init
        (replicate 32 (Fin 0, Fin 0, Fin 0, Fin 0, Fin 1, Fin 1, Fin (1 / 4), 2) @
         [(Fin (33 / 2), Fin 0, Fin 0, Fin 0, Fin 1, Fin 1, Fin (1 / 4), 0)]))) =
     (Fin (39 / 68), Fin (1 / 34))"
  by (simp add: run_state_append motionK_calm motionK_axis_step kalman_spec_def fsub_def)

text \<open>
  Claim C8, amended. A call of \<^verbatim>\<open>motionK\<close> or \<^verbatim>\<open>orientK\<close> made while the warm-up counter is 0
  stores the measurements as estimates and \<open>E\<close> as every error and returns 0, respectively
  1 with no angle. A call made while the counter is not 0 updates every axis by the
  recursion \<open>kalman_spec\<close>; in \<^verbatim>\<open>orientK\<close> this is the state before the normalization that
  follows once warm-up is over. The counter is 0 at the first call; in \<^verbatim>\<open>orientK\<close> it is
  never 0 again, in \<^verbatim>\<open>motionK\<close> it is 0 again after each firing.
\<close>

theorem kalman_recursion:
  "(mk_setup s = 0 \<longrightarrow>
      motionK s (x, y, z, Q, R, E, delta, n) =
        (Fin 0, s\<lparr>mk_fX := x, mk_fY := y, mk_fZ := z, mk_eX := E, mk_eY := E, mk_eZ := E,
                  mk_setup := 1\<rparr>)) \<and>
   (mk_setup s \<noteq> 0 \<longrightarrow>
      (mk_fX (snd (motionK s (x, y, z, Q, R, E, delta, n))),
       mk_eX (snd (motionK s (x, y, z, Q, R, E, delta, n)))) =
        kalman_spec Q R x (mk_fX s, mk_eX s) \<and>
      (mk_fY (snd (motionK s (x, y, z, Q, R, E, delta, n))),
       mk_eY (snd (motionK s (x, y, z, Q, R, E, delta, n)))) =
        kalman_spec Q R y (mk_fY s, mk_eY s) \<and>
      (mk_fZ (snd (motionK s (x, y, z, Q, R, E, delta, n))),
       mk_eZ (snd (motionK s (x, y, z, Q, R, E, delta, n)))) =
        kalman_spec Q R z (mk_fZ s, mk_eZ s)) \<and>
   (ok_setup u = 0 \<longrightarrow>
      orientK u (a, m, Q, R, E) =
        ((1, None), u\<lparr>ok_fA := vec3 (a X) (a Y) (a Z), ok_fM := vec3 (m X) (m Y) (m Z),
           ok_eA := vec3 E E E, ok_eM := vec3 E E E, ok_setup := 1\<rparr>)) \<and>
   (ok_setup u \<noteq> 0 \<longrightarrow>
      (\<forall>i. (ok_fA (orientK_filter u a m Q R) i, ok_eA (orientK_filter u a m Q R) i) =
            kalman_spec Q R (a i) (ok_fA u i, ok_eA u i) \<and>
           (ok_fM (orientK_filter u a m Q R) i, ok_eM (orientK_filter u a m Q R) i) =
            kalman_spec Q R (m i) (ok_fM u i, ok_eM u i)) \<and>
      snd (orientK u (a, m, Q, R, E)) =
        (if ok_setup u < CNTSETUP then (orientK_filter u a m Q R)\<lparr>ok_setup := ok_setup u + 1\<rparr>
         else orientK_normalize (orientK_filter u a m Q R))) \<and>
   mk_setup motionK_init = 0 \<and> ok_setup orientK_init = 0 \<and>
   (cs \<noteq> [] \<longrightarrow> ok_setup (run_state orientK orientK_init cs) \<noteq> 0)"
  using motionK_first_call [of s x y z Q R E delta n]
    motionK_later_call [of s x y z Q R E delta n] motionK_filter_kalman [of s x y z Q R]
    orientK_first_call [of u a m Q R E] orientK_later_call [of u a m Q R E]
    orientK_filter_kalman [of u a m Q R] orientK_started [of cs]
  by (simp add: motionK_init_def orientK_init_def)

theorem kalman_recursion_witness:
  "mk_setup motionK_init = 0 \<and>
   motionK motionK_init (Fin 1, Fin 2, Fin 3, Fin 1, Fin 2, Fin 5, Fin 1, 0) =
     (Fin 0, \<lparr>mk_setup = 1, mk_smpl = 0, mk_fX = Fin 1, mk_fY = Fin 2, mk_fZ = Fin 3,
        mk_eX = Fin 5, mk_eY = Fin 5, mk_eZ = Fin 5, mk_pX = Fin 0, mk_pY = Fin 0, mk_pZ = Fin 0\<rparr>) \<and>
   mk_setup \<lparr>mk_setup = 1, mk_smpl = 0, mk_fX = Fin 1, mk_fY = Fin 2, mk_fZ = Fin 3,
        mk_eX = Fin 5, mk_eY = Fin 5, mk_eZ = Fin 5, mk_pX = Fin 0, mk_pY = Fin 0, mk_pZ = Fin 0\<rparr> \<noteq> 0 \<and>
   (mk_fX (snd (motionK \<lparr>mk_setup = 1, mk_smpl = 0, mk_fX = Fin 1, mk_fY = Fin 2, mk_fZ = Fin 3,
        mk_eX = Fin 5, mk_eY = Fin 5, mk_eZ = Fin 5, mk_pX = Fin 0, mk_pY = Fin 0, mk_pZ = Fin 0\<rparr>
        (Fin 9, Fin 2, Fin 3, Fin 1, Fin 2, Fin 5, Fin 1, 0))),
    mk_eX (snd (motionK \<lparr>mk_setup = 1, mk_smpl = 0, mk_fX = Fin 1, mk_fY = Fin 2, mk_fZ = Fin 3,
        mk_eX = Fin 5, mk_eY = Fin 5, mk_eZ = Fin 5, mk_pX = Fin 0, mk_pY = Fin 0, mk_pZ = Fin 0\<rparr>
        (Fin 9, Fin 2, Fin 3, Fin 1, Fin 2, Fin 5, Fin 1, 0)))) = (Fin 7, Fin (3 / 2)) \<and>
   ok_setup orientK_init = 0 \<and>
   fst (orientK orientK_init
      (vec3 (Fin 1) (Fin 2) (Fin 3), vec3 (Fin 4) (Fin 5) (Fin 6), Fin 1, Fin 2, Fin 5)) = (1, None) \<and>
   ok_setup (run_state orientK orientK_init
      [(vec3 (Fin 1) (Fin 2) (Fin 3), vec3 (Fin 4) (Fin 5) (Fin 6), Fin 1, Fin 2, Fin 5)]) \<noteq> 0 \<and>
   (ok_fA (orientK_filter (run_state orientK orientK_init
        [(vec3 (Fin 1) (Fin 2) (Fin 3), vec3 (Fin 4) (Fin 5) (Fin 6), Fin 1, Fin 2, Fin 5)])
        (vec3 (Fin 9) (Fin 2) (Fin 3)) (vec3 (Fin 4) (Fin 5) (Fin 6)) (Fin 1) (Fin 2)) X,
    ok_eA (orientK_filter (run_state orientK orientK_init
        [(vec3 (Fin 1) (Fin 2) (Fin 3), vec3 (Fin 4) (Fin 5) (Fin 6), Fin 1, Fin 2, Fin 5)])
        (vec3 (Fin 9) (Fin 2) (Fin 3)) (vec3 (Fin 4) (Fin 5) (Fin 6)) (Fin 1) (Fin 2)) X) =
     (Fin 7, Fin (3 / 2))"
  using kalman_recursion [of motionK_init "Fin 1" "Fin 2" "Fin 3" "Fin 1" "Fin 2" "Fin 5" "Fin 1" 0
      orientK_init "vec3 (Fin 1) (Fin 2) (Fin 3)" "vec3 (Fin 4) (Fin 5) (Fin 6)"
      "[(vec3 (Fin 1) (Fin 2) (Fin 3), vec3 (Fin 4) (Fin 5) (Fin 6), Fin 1, Fin 2, Fin 5)]"]
    kalman_recursion [of "\<lparr>mk_setup = 1, mk_smpl = 0, mk_fX = Fin 1, mk_fY = Fin 2, mk_fZ = Fin 3,
        mk_eX = Fin 5, mk_eY = Fin 5, mk_eZ = Fin 5, mk_pX = Fin 0, mk_pY = Fin 0, mk_pZ = Fin 0\<rparr>"
      "Fin 9" "Fin 2" "Fin 3" "Fin 1" "Fin 2" "Fin 5" "Fin 1" 0
      "run_state orientK orientK_init
        [(vec3 (Fin 1) (Fin 2) (Fin 3), vec3 (Fin 4) (Fin 5) (Fin 6), Fin 1, Fin 2, Fin 5)]"
      "vec3 (Fin 9) (Fin 2) (Fin 3)" "vec3 (Fin 4) (Fin 5) (Fin 6)"]
  by (simp add: motionK_init_def orientK_init_def orientK_def kalman_spec_def fsub_def vec3_def)

section \<open>The orientation estimators after warm-up\<close>

lemma orientLP_ready:
  "olp_setup s = 32 \<Longrightarrow>
     orientLP s (a, m, alpha) =
       ((0, Some (pitch_of (olp_aX (orientLP_filter s a m alpha))
                    (olp_aY (orientLP_filter s a m alpha)) (olp_aZ (orientLP_filter s a m alpha)),
                  roll_of (olp_aX (orientLP_filter s a m alpha))
                    (olp_aY (orientLP_filter s a m alpha)) (olp_aZ (orientLP_filter s a m alpha)),
                  yaw_of (olp_aX (orientLP_normalize (orientLP_filter s a m alpha)))
                    (olp_aY (orientLP_normalize (orientLP_filter s a m alpha)))
                    (olp_aZ (orientLP_normalize (orientLP_filter s a m alpha)))
                    (olp_mX (orientLP_normalize (orientLP_filter s a m alpha)))
                    (olp_mY (orientLP_normalize (orientLP_filter s a m alpha)))
                    (olp_mZ (orientLP_normalize (orientLP_filter s a m alpha))))),
        orientLP_normalize (orientLP_filter s a m alpha))"
  by (simp add: orientLP_def orientLP_filter_def CNTSETUP_def Let_def)

lemma orientK_ready:
  "ok_setup s = 32 \<Longrightarrow>
     orientK s (a, m, Q, R, E) =
       ((0, Some (pitch_of (ok_fA (orientK_filter s a m Q R) X)
                    (ok_fA (orientK_filter s a m Q R) Y) (ok_fA (orientK_filter s a m Q R) Z),
                  roll_of (ok_fA (orientK_filter s a m Q R) X)
                    (ok_fA (orientK_filter s a m Q R) Y) (ok_fA (orientK_filter s a m Q R) Z),
                  yaw_of (ok_fA (orientK_normalize (orientK_filter s a m Q R)) X)
                    (ok_fA (orientK_normalize (orientK_filter s a m Q R)) Y)
                    (ok_fA (orientK_normalize (orientK_filter s a m Q R)) Z)
                    (ok_fM (orientK_normalize (orientK_filter s a m Q R)) X)
                    (ok_fM (orientK_normalize (orientK_filter s a m Q R)) Y)
                    (ok_fM (orientK_normalize (orientK_filter s a m Q R)) Z))),
        orientK_normalize (orientK_filter s a m Q R))"
  by (simp add: orientK_def orientK_filter_setup CNTSETUP_def Let_def)







lemma orientLP_normalized:
  "(olp_aX (orientLP_normalize t), olp_aY (orientLP_normalize t), olp_aZ (orientLP_normalize t)) =
     normalized (olp_aX t, olp_aY t, olp_aZ t) \<and>
   (olp_mX (orientLP_normalize t), olp_mY (orientLP_normalize t), olp_mZ (orientLP_normalize t)) =
     normalized (olp_mX t, olp_mY t, olp_mZ t)"
  by (simp add: orientLP_normalize_def normalized_def magnitude_def Let_def)

lemma orientK_normalized:
  "(ok_fA (orientK_normalize t) X, ok_fA (orientK_normalize t) Y, ok_fA (orientK_normalize t) Z) =
     normalized (ok_fA t X, ok_fA t Y, ok_fA t Z) \<and>
   (ok_fM (orientK_normalize t) X, ok_fM (orientK_normalize t) Y, ok_fM (orientK_normalize t) Z) =
     normalized (ok_fM t X, ok_fM t Y, ok_fM t Z)"
  by (simp add: orientK_normalize_def normalized_def magnitude_def Let_def)

section \<open>A vector of length zero\<close>

lemma fmul_NaN [simp]: "fmul v NaN = NaN"
  by (cases v) simp_all

lemma fadd_NaN [simp]: "fadd v NaN = NaN"
  by (cases v) simp_all

lemma fsub_NaN [simp]: "fsub v NaN = NaN" "fsub NaN v = NaN"
  by (simp_all add: fsub_def)

lemma fdiv_NaN [simp]: "fdiv v NaN = NaN"
  by (cases v) simp_all

lemma atan2f_NaN [simp]: "atan2f v NaN = NaN"
  by (cases v) simp_all

lemma flt_less_NaN [simp]: "\<not> flt_less v NaN"
  by (cases v) simp_all

lemma zero_over_zero: "fdiv (Fin 0) (fsqrt (fadd (fadd (fmul (Fin 0) (Fin 0)) (fmul (Fin 0) (Fin 0)))
    (fmul (Fin 0) (Fin 0)))) = NaN"
  by simp

lemma orientLP_zero_accel:
  assumes "olp_setup s = 32"
    and "olp_aX (orientLP_filter s a m alpha) = Fin 0"
    and "olp_aY (orientLP_filter s a m alpha) = Fin 0"
    and "olp_aZ (orientLP_filter s a m alpha) = Fin 0"
  shows "fst (orientLP s (a, m, alpha)) = (0, Some (Fin 0, Fin 0, NaN))"
    and "olp_aX (snd (orientLP s (a, m, alpha))) = NaN"
    and "olp_aY (snd (orientLP s (a, m, alpha))) = NaN"
    and "olp_aZ (snd (orientLP s (a, m, alpha))) = NaN"
  using assms
  by (simp_all add: orientLP_ready orientLP_normalize_def pitch_of_def roll_of_def yaw_of_def
      atan2_def RAD2DEG_def Let_def)

lemma orientLP_zero_mag:
  assumes "olp_setup s = 32"
    and "olp_mX (orientLP_filter s a m alpha) = Fin 0"
    and "olp_mY (orientLP_filter s a m alpha) = Fin 0"
    and "olp_mZ (orientLP_filter s a m alpha) = Fin 0"
  shows "map_option (\<lambda>(pitch, roll, yaw). yaw) (snd (fst (orientLP s (a, m, alpha)))) = Some NaN"
    and "olp_mX (snd (orientLP s (a, m, alpha))) = NaN"
    and "olp_mY (snd (orientLP s (a, m, alpha))) = NaN"
    and "olp_mZ (snd (orientLP s (a, m, alpha))) = NaN"
  using assms
  by (simp_all add: orientLP_ready orientLP_normalize_def yaw_of_def Let_def)

lemma orientK_zero_accel:
  assumes "ok_setup s = 32"
    and "ok_fA (orientK_filter s a m Q R) X = Fin 0"
    and "ok_fA (orientK_filter s a m Q R) Y = Fin 0"
    and "ok_fA (orientK_filter s a m Q R) Z = Fin 0"
  shows "fst (orientK s (a, m, Q, R, E)) = (0, Some (Fin 0, Fin 0, NaN))"
    and "ok_fA (snd (orientK s (a, m, Q, R, E))) X = NaN"
    and "ok_fA (snd (orientK s (a, m, Q, R, E))) Y = NaN"
    and "ok_fA (snd (orientK s (a, m, Q, R, E))) Z = NaN"
  using assms
  by (simp_all add: orientK_ready orientK_normalize_def pitch_of_def roll_of_def yaw_of_def
      atan2_def RAD2DEG_def Let_def)

lemma orientK_zero_mag:
  assumes "ok_setup s = 32"
    and "ok_fM (orientK_filter s a m Q R) X = Fin 0"
    and "ok_fM (orientK_filter s a m Q R) Y = Fin 0"
    and "ok_fM (orientK_filter s a m Q R) Z = Fin 0"
  shows "map_option (\<lambda>(pitch, roll, yaw). yaw) (snd (fst (orientK s (a, m, Q, R, E)))) = Some NaN"
    and "ok_fM (snd (orientK s (a, m, Q, R, E))) X = NaN"
    and "ok_fM (snd (orientK s (a, m, Q, R, E))) Y = NaN"
    and "ok_fM (snd (orientK s (a, m, Q, R, E))) Z = NaN"
  using assms
  by (simp_all add: orientK_ready orientK_normalize_def yaw_of_def Let_def)

lemma inclineLP_zero:
  assumes "inc_setup s = 32"
    and "inc_aX (inclineLP_filter s x y z alpha) = Fin 0"
    and "inc_aY (inclineLP_filter s x y z alpha) = Fin 0"
    and "inc_aZ (inclineLP_filter s x y z alpha) = Fin 0"
  shows "inclineLP_theta s x y z alpha = NaN"
    and "inclineLP s (x, y, z, alpha, delta) = (Fin 0, inclineLP_filter s x y z alpha)"
proof -
  show th: "inclineLP_theta s x y z alpha = NaN"
    using assms by (simp add: inclineLP_theta_def magnitude_def RAD2DEG_def)
  show "inclineLP s (x, y, z, alpha, delta) = (Fin 0, inclineLP_filter s x y z alpha)"
    using assms(1) th
    by (simp add: inclineLP_def inclineLP_filter_def flt_greater_def CNTSETUP_def Let_def)
qed


section \<open>Evaluating the orientation estimators\<close>

lemma vec3_apply [simp]: "vec3 a b c X = a" "vec3 a b c Y = b" "vec3 a b c Z = c"
  by (simp_all add: vec3_def)

lemma vec3_upd:
  "(vec3 a b c)(X := v) = vec3 v b c"
  "(vec3 a b c)(Y := v) = vec3 a v c"
  "(vec3 a b c)(Z := v) = vec3 a b v"
  by (rule ext, simp add: vec3_def split: axis.split)+

lemma vec3_const: "(\<lambda>i. v) = vec3 v v v"
  by (rule ext) (simp add: vec3_def split: axis.split)

lemma orientLP_warm_step:
  "c < 32 \<Longrightarrow>
   orientLP \<lparr>olp_setup = c, olp_aX = Fin a1, olp_aY = Fin a2, olp_aZ = Fin a3,
      olp_mX = Fin m1, olp_mY = Fin m2, olp_mZ = Fin m3\<rparr>
     (vec3 (Fin x1) (Fin x2) (Fin x3), vec3 (Fin y1) (Fin y2) (Fin y3), Fin al) =
   (if c = 0 then
      ((1, None), \<lparr>olp_setup = 1, olp_aX = Fin x1, olp_aY = Fin x2, olp_aZ = Fin x3,
         olp_mX = Fin y1, olp_mY = Fin y2, olp_mZ = Fin y3\<rparr>)
    else
      ((1, None), \<lparr>olp_setup = c + 1, olp_aX = Fin (al * x1 + (1 - al) * a1),
         olp_aY = Fin (al * x2 + (1 - al) * a2), olp_aZ = Fin (al * x3 + (1 - al) * a3),
         olp_mX = Fin (al * y1 + (1 - al) * m1), olp_mY = Fin (al * y2 + (1 - al) * m2),
         olp_mZ = Fin (al * y3 + (1 - al) * m3)\<rparr>))"
  by (simp add: orientLP_def orientLP_filter_def low_pass_def fsub_def CNTSETUP_def Let_def)

lemma orientLP_filter_fin:
  "orientLP_filter \<lparr>olp_setup = c, olp_aX = Fin a1, olp_aY = Fin a2, olp_aZ = Fin a3,
      olp_mX = Fin m1, olp_mY = Fin m2, olp_mZ = Fin m3\<rparr>
     (vec3 (Fin x1) (Fin x2) (Fin x3)) (vec3 (Fin y1) (Fin y2) (Fin y3)) (Fin al) =
   \<lparr>olp_setup = c, olp_aX = Fin (al * x1 + (1 - al) * a1),
      olp_aY = Fin (al * x2 + (1 - al) * a2), olp_aZ = Fin (al * x3 + (1 - al) * a3),
      olp_mX = Fin (al * y1 + (1 - al) * m1), olp_mY = Fin (al * y2 + (1 - al) * m2),
      olp_mZ = Fin (al * y3 + (1 - al) * m3)\<rparr>"
  by (simp add: orientLP_filter_def low_pass_def fsub_def)

lemma orientK_filter_fin:
  "e + Q + R \<noteq> 0 \<Longrightarrow>
   orientK_filter \<lparr>ok_setup = c, ok_fA = vec3 (Fin a1) (Fin a2) (Fin a3),
      ok_fM = vec3 (Fin m1) (Fin m2) (Fin m3), ok_eA = vec3 (Fin e) (Fin e) (Fin e),
      ok_eM = vec3 (Fin e) (Fin e) (Fin e)\<rparr>
     (vec3 (Fin x1) (Fin x2) (Fin x3)) (vec3 (Fin y1) (Fin y2) (Fin y3)) (Fin Q) (Fin R) =
   \<lparr>ok_setup = c,
      ok_fA = vec3 (Fin (a1 + (e + Q) / (e + Q + R) * (x1 - a1)))
        (Fin (a2 + (e + Q) / (e + Q + R) * (x2 - a2)))
        (Fin (a3 + (e + Q) / (e + Q + R) * (x3 - a3))),
      ok_fM = vec3 (Fin (m1 + (e + Q) / (e + Q + R) * (y1 - m1)))
        (Fin (m2 + (e + Q) / (e + Q + R) * (y2 - m2)))
        (Fin (m3 + (e + Q) / (e + Q + R) * (y3 - m3))),
      ok_eA = vec3 (Fin ((e + Q) * (1 - (e + Q) / (e + Q + R))))
        (Fin ((e + Q) * (1 - (e + Q) / (e + Q + R))))
        (Fin ((e + Q) * (1 - (e + Q) / (e + Q + R)))),
      ok_eM = vec3 (Fin ((e + Q) * (1 - (e + Q) / (e + Q + R))))
        (Fin ((e + Q) * (1 - (e + Q) / (e + Q + R))))
        (Fin ((e + Q) * (1 - (e + Q) / (e + Q + R))))\<rparr>"
  by (simp add: orientK_filter_def orientK_axis_def fsub_def Let_def vec3_upd)

lemma orientK_warm_step:
  "c < 32 \<Longrightarrow> e + Q + R \<noteq> 0 \<Longrightarrow>
   orientK \<lparr>ok_setup = c, ok_fA = vec3 (Fin a1) (Fin a2) (Fin a3),
      ok_fM = vec3 (Fin m1) (Fin m2) (Fin m3), ok_eA = vec3 (Fin e) (Fin e) (Fin e),
      ok_eM = vec3 (Fin e) (Fin e) (Fin e)\<rparr>
     (vec3 (Fin x1) (Fin x2) (Fin x3), vec3 (Fin y1) (Fin y2) (Fin y3), Fin Q, Fin R, Fin E) =
   (if c = 0 then
      ((1, None), \<lparr>ok_setup = 1, ok_fA = vec3 (Fin x1) (Fin x2) (Fin x3),
         ok_fM = vec3 (Fin y1) (Fin y2) (Fin y3), ok_eA = vec3 (Fin E) (Fin E) (Fin E),
         ok_eM = vec3 (Fin E) (Fin E) (Fin E)\<rparr>)
    else
      ((1, None), \<lparr>ok_setup = c + 1,
      ok_fA = vec3 (Fin (a1 + (e + Q) / (e + Q + R) * (x1 - a1)))
        (Fin (a2 + (e + Q) / (e + Q + R) * (x2 - a2)))
        (Fin (a3 + (e + Q) / (e + Q + R) * (x3 - a3))),
      ok_fM = vec3 (Fin (m1 + (e + Q) / (e + Q + R) * (y1 - m1)))
        (Fin (m2 + (e + Q) / (e + Q + R) * (y2 - m2)))
        (Fin (m3 + (e + Q) / (e + Q + R) * (y3 - m3))),
      ok_eA = vec3 (Fin ((e + Q) * (1 - (e + Q) / (e + Q + R))))
        (Fin ((e + Q) * (1 - (e + Q) / (e + Q + R))))
        (Fin ((e + Q) * (1 - (e + Q) / (e + Q + R)))),
      ok_eM = vec3 (Fin ((e + Q) * (1 - (e + Q) / (e + Q + R))))
        (Fin ((e + Q) * (1 - (e + Q) / (e + Q + R))))
        (Fin ((e + Q) * (1 - (e + Q) / (e + Q + R))))\<rparr>))"
  by (simp add: orientK_def orientK_filter_fin CNTSETUP_def Let_def)

lemma orientLP_void:
  "run_state orientLP orientLP_init
     (replicate 32 (vec3 (Fin 0) (Fin 0) (Fin 0), vec3 (Fin 0) (Fin 0) (Fin 0), Fin (1 / 2))) =
   \<lparr>olp_setup = 32, olp_aX = Fin 0, olp_aY = Fin 0, olp_aZ = Fin 0,
      olp_mX = Fin 0, olp_mY = Fin 0, olp_mZ = Fin 0\<rparr>"
  by (simp add: replicate_numeral orientLP_init_def orientLP_warm_step)

lemma orientLP_level:
  "run_state orientLP orientLP_init
     (replicate 32 (vec3 (Fin 0) (Fin 0) (Fin 1), vec3 (Fin 1) (Fin 0) (Fin 0), Fin (1 / 2))) =
   \<lparr>olp_setup = 32, olp_aX = Fin 0, olp_aY = Fin 0, olp_aZ = Fin 1,
      olp_mX = Fin 1, olp_mY = Fin 0, olp_mZ = Fin 0\<rparr>"
  by (simp add: replicate_numeral orientLP_init_def orientLP_warm_step)

lemma orientLP_dark:
  "run_state orientLP orientLP_init
     (replicate 32 (vec3 (Fin 0) (Fin 0) (Fin 0), vec3 (Fin 1) (Fin 0) (Fin 0), Fin (1 / 2))) =
   \<lparr>olp_setup = 32, olp_aX = Fin 0, olp_aY = Fin 0, olp_aZ = Fin 0,
      olp_mX = Fin 1, olp_mY = Fin 0, olp_mZ = Fin 0\<rparr>"
  by (simp add: replicate_numeral orientLP_init_def orientLP_warm_step)

lemma orientK_level:
  "run_state orientK orientK_init
     (replicate 32 (vec3 (Fin 0) (Fin 0) (Fin 1), vec3 (Fin 1) (Fin 0) (Fin 0), Fin 0, Fin 1, Fin 1)) =
   \<lparr>ok_setup = 32, ok_fA = vec3 (Fin 0) (Fin 0) (Fin 1), ok_fM = vec3 (Fin 1) (Fin 0) (Fin 0),
      ok_eA = vec3 (Fin (1 / 32)) (Fin (1 / 32)) (Fin (1 / 32)),
      ok_eM = vec3 (Fin (1 / 32)) (Fin (1 / 32)) (Fin (1 / 32))\<rparr>"
  by (simp add: replicate_numeral orientK_init_def vec3_const orientK_warm_step)

lemma orientK_trusting:
  "run_state orientK orientK_init
     (replicate 32 (vec3 (Fin 0) (Fin 0) (Fin 1), vec3 (Fin 1) (Fin 0) (Fin 0), Fin 1, Fin 0, Fin 1)) =
   \<lparr>ok_setup = 32, ok_fA = vec3 (Fin 0) (Fin 0) (Fin 1), ok_fM = vec3 (Fin 1) (Fin 0) (Fin 0),
      ok_eA = vec3 (Fin 0) (Fin 0) (Fin 0), ok_eM = vec3 (Fin 0) (Fin 0) (Fin 0)\<rparr>"
  by (simp add: replicate_numeral orientK_init_def vec3_const orientK_warm_step)


lemma orientK_void:
  "run_state orientK orientK_init
     (replicate 32 (vec3 (Fin 0) (Fin 0) (Fin 0), vec3 (Fin 0) (Fin 0) (Fin 0), Fin 0, Fin 1, Fin 1)) =
   \<lparr>ok_setup = 32, ok_fA = vec3 (Fin 0) (Fin 0) (Fin 0), ok_fM = vec3 (Fin 0) (Fin 0) (Fin 0),
      ok_eA = vec3 (Fin (1 / 32)) (Fin (1 / 32)) (Fin (1 / 32)),
      ok_eM = vec3 (Fin (1 / 32)) (Fin (1 / 32)) (Fin (1 / 32))\<rparr>"
  by (simp add: replicate_numeral orientK_init_def vec3_const orientK_warm_step)

lemma inclineLP_void:
  "run_state inclineLP inclineLP_init (replicate 32 (Fin 0, Fin 0, Fin 0, Fin (1 / 2), Fin 1)) =
     \<lparr>inc_setup = 32, inc_aX = Fin 0, inc_aY = Fin 0, inc_aZ = Fin 0\<rparr>"
  by (simp add: replicate_numeral inclineLP_init_def inclineLP_plane_step)

section \<open>The division by the norm\<close>

text \<open>
  Claim C1, as stated, fails: fed zero vectors, \<^verbatim>\<open>orientLP\<close> returns 0, ready, on its 33rd
  call and writes the yaw NaN; the stored vectors are NaN from then on, so the 34th call,
  on a regular sample, writes NaN into all three angles.
\<close>

theorem zero_norm_counterexample:
  "run_outs orientLP orientLP_init
     (replicate 33 (vec3 (Fin 0) (Fin 0) (Fin 0), vec3 (Fin 0) (Fin 0) (Fin 0), Fin (1 / 2)) @
      [(vec3 (Fin 0) (Fin 0) (Fin 1), vec3 (Fin 1) (Fin 0) (Fin 0), Fin (1 / 2))]) =
   replicate 32 (1, None) @ [(0, Some (Fin 0, Fin 0, NaN)), (0, Some (NaN, NaN, NaN))]"
  by (simp add: replicate_numeral orientLP_init_def orientLP_warm_step orientLP_ready
      orientLP_filter_fin orientLP_filter_def low_pass_def orientLP_normalize_def pitch_of_def
      roll_of_def yaw_of_def atan2_def RAD2DEG_def fsub_def Let_def)

text \<open>
  Claim C1, amended. Neither estimator has a path that reports a vector of length zero
  as no reading: after warm-up \<^verbatim>\<open>orientLP\<close> and \<^verbatim>\<open>orientK\<close> return 0 on every call. When the
  filtered accelerometer vector is zero they write pitch 0, roll 0 and the yaw NaN and
  store NaN in its place; when the filtered magnetometer vector is zero the yaw is NaN
  and that vector is stored as NaN. In \<^verbatim>\<open>inclineLP\<close> the angle of a zero vector is NaN, the
  comparison with \<^verbatim>\<open>fabsf(delta)\<close> is false and the call returns 0 without firing.
\<close>

theorem division_unguarded:
  "(olp_setup s = 32 \<longrightarrow> fst (fst (orientLP s (a, m, alpha))) = 0) \<and>
   (olp_setup s = 32 \<and> olp_aX (orientLP_filter s a m alpha) = Fin 0 \<and>
    olp_aY (orientLP_filter s a m alpha) = Fin 0 \<and> olp_aZ (orientLP_filter s a m alpha) = Fin 0 \<longrightarrow>
      fst (orientLP s (a, m, alpha)) = (0, Some (Fin 0, Fin 0, NaN)) \<and>
      olp_aX (snd (orientLP s (a, m, alpha))) = NaN \<and>
      olp_aY (snd (orientLP s (a, m, alpha))) = NaN \<and>
      olp_aZ (snd (orientLP s (a, m, alpha))) = NaN) \<and>
   (olp_setup s = 32 \<and> olp_mX (orientLP_filter s a m alpha) = Fin 0 \<and>
    olp_mY (orientLP_filter s a m alpha) = Fin 0 \<and> olp_mZ (orientLP_filter s a m alpha) = Fin 0 \<longrightarrow>
      map_option (\<lambda>(pitch, roll, yaw). yaw) (snd (fst (orientLP s (a, m, alpha)))) = Some NaN \<and>
      olp_mX (snd (orientLP s (a, m, alpha))) = NaN \<and>
      olp_mY (snd (orientLP s (a, m, alpha))) = NaN \<and>
      olp_mZ (snd (orientLP s (a, m, alpha))) = NaN) \<and>
   (ok_setup u = 32 \<longrightarrow> fst (fst (orientK u (a, m, Q, R, E))) = 0) \<and>
   (ok_setup u = 32 \<and> ok_fA (orientK_filter u a m Q R) X = Fin 0 \<and>
    ok_fA (orientK_filter u a m Q R) Y = Fin 0 \<and> ok_fA (orientK_filter u a m Q R) Z = Fin 0 \<longrightarrow>
      fst (orientK u (a, m, Q, R, E)) = (0, Some (Fin 0, Fin 0, NaN)) \<and>
      ok_fA (snd (orientK u (a, m, Q, R, E))) X = NaN \<and>
      ok_fA (snd (orientK u (a, m, Q, R, E))) Y = NaN \<and>
      ok_fA (snd (orientK u (a, m, Q, R, E))) Z = NaN) \<and>
   (ok_setup u = 32 \<and> ok_fM (orientK_filter u a m Q R) X = Fin 0 \<and>
    ok_fM (orientK_filter u a m Q R) Y = Fin 0 \<and> ok_fM (orientK_filter u a m Q R) Z = Fin 0 \<longrightarrow>
      map_option (\<lambda>(pitch, roll, yaw). yaw) (snd (fst (orientK u (a, m, Q, R, E)))) = Some NaN \<and>
      ok_fM (snd (orientK u (a, m, Q, R, E))) X = NaN \<and>
      ok_fM (snd (orientK u (a, m, Q, R, E))) Y = NaN \<and>
      ok_fM (snd (orientK u (a, m, Q, R, E))) Z = NaN) \<and>
   (inc_setup v = 32 \<and> inc_aX (inclineLP_filter v x y z alpha) = Fin 0 \<and>
    inc_aY (inclineLP_filter v x y z alpha) = Fin 0 \<and>
    inc_aZ (inclineLP_filter v x y z alpha) = Fin 0 \<longrightarrow>
      inclineLP_theta v x y z alpha = NaN \<and>
      inclineLP v (x, y, z, alpha, delta) = (Fin 0, inclineLP_filter v x y z alpha))"
  using orientLP_zero_accel [of s a m alpha] orientLP_zero_mag [of s a m alpha]
    orientK_zero_accel [of u a m Q R E] orientK_zero_mag [of u a m Q R E]
    inclineLP_zero(1) [of v x y z alpha] inclineLP_zero(2) [of v x y z alpha delta]
  by (simp add: orientLP_ready orientK_ready)

theorem division_unguarded_witness:
  "olp_setup (run_state orientLP orientLP_init
      (replicate 32 (vec3 (Fin 0) (Fin 0) (Fin 0), vec3 (Fin 0) (Fin 0) (Fin 0), Fin (1 / 2)))) = 32 \<and>
   olp_aX (orientLP_filter (run_state orientLP orientLP_init
      (replicate 32 (vec3 (Fin 0) (Fin 0) (Fin 0), vec3 (Fin 0) (Fin 0) (Fin 0), Fin (1 / 2))))
      (vec3 (Fin 0) (Fin 0) (Fin 0)) (vec3 (Fin 0) (Fin 0) (Fin 0)) (Fin (1 / 2))) = Fin 0 \<and>
   fst (orientLP (run_state orientLP orientLP_init
      (replicate 32 (vec3 (Fin 0) (Fin 0) (Fin 0), vec3 (Fin 0) (Fin 0) (Fin 0), Fin (1 / 2))))
      (vec3 (Fin 0) (Fin 0) (Fin 0), vec3 (Fin 0) (Fin 0) (Fin 0), Fin (1 / 2))) =
     (0, Some (Fin 0, Fin 0, NaN)) \<and>
   ok_setup (run_state orientK orientK_init
      (replicate 32 (vec3 (Fin 0) (Fin 0) (Fin 0), vec3 (Fin 0) (Fin 0) (Fin 0), Fin 0, Fin 1, Fin 1))) = 32 \<and>
   ok_fA (orientK_filter (run_state orientK orientK_init
      (replicate 32 (vec3 (Fin 0) (Fin 0) (Fin 0), vec3 (Fin 0) (Fin 0) (Fin 0), Fin 0, Fin 1, Fin 1)))
      (vec3 (Fin 0) (Fin 0) (Fin 0)) (vec3 (Fin 0) (Fin 0) (Fin 0)) (Fin 0) (Fin 1)) X = Fin 0 \<and>
   fst (orientK (run_state orientK orientK_init
      (replicate 32 (vec3 (Fin 0) (Fin 0) (Fin 0), vec3 (Fin 0) (Fin 0) (Fin 0), Fin 0, Fin 1, Fin 1)))
      (vec3 (Fin 0) (Fin 0) (Fin 0), vec3 (Fin 0) (Fin 0) (Fin 0), Fin 0, Fin 1, Fin 1)) =
     (0, Some (Fin 0, Fin 0, NaN)) \<and>
   inc_setup (run_state inclineLP inclineLP_init
      (replicate 32 (Fin 0, Fin 0, Fin 0, Fin (1 / 2), Fin 1))) = 32 \<and>
   inclineLP_theta (run_state inclineLP inclineLP_init
      (replicate 32 (Fin 0, Fin 0, Fin 0, Fin (1 / 2), Fin 1)))
      (Fin 0) (Fin 0) (Fin 0) (Fin (1 / 2)) = NaN \<and>
   fst (inclineLP (run_state inclineLP inclineLP_init
      (replicate 32 (Fin 0, Fin 0, Fin 0, Fin (1 / 2), Fin 1)))
      (Fin 0, Fin 0, Fin 0, Fin (1 / 2), Fin 1)) = Fin 0"
  using division_unguarded [where
      s = "run_state orientLP orientLP_init
        (replicate 32 (vec3 (Fin 0) (Fin 0) (Fin 0), vec3 (Fin 0) (Fin 0) (Fin 0), Fin (1 / 2)))"
      and a = "vec3 (Fin 0) (Fin 0) (Fin 0)" and m = "vec3 (Fin 0) (Fin 0) (Fin 0)"
      and alpha = "Fin (1 / 2)"
      and u = "run_state orientK orientK_init
        (replicate 32 (vec3 (Fin 0) (Fin 0) (Fin 0), vec3 (Fin 0) (Fin 0) (Fin 0), Fin 0, Fin 1, Fin 1))"
      and Q = "Fin 0" and R = "Fin 1" and E = "Fin 1"
      and v = "run_state inclineLP inclineLP_init
        (replicate 32 (Fin 0, Fin 0, Fin 0, Fin (1 / 2), Fin 1))"
      and x = "Fin 0" and y = "Fin 0" and z = "Fin 0" and delta = "Fin 1"]
  by (simp add: orientLP_void orientK_void inclineLP_void orientLP_filter_fin orientK_filter_fin
      inclineLP_filter_def low_pass_def fsub_def)


section \<open>The angles\<close>




section \<open>The stored vectors\<close>

lemma orientLP_returns_ready:
  "fst (fst (orientLP s (a, m, alpha))) = 0 \<Longrightarrow>
     snd (orientLP s (a, m, alpha)) = orientLP_normalize (orientLP_filter s a m alpha)"
  by (simp add: orientLP_def Let_def split: if_splits)

lemma orientK_returns_ready:
  "fst (fst (orientK s (a, m, Q, R, E))) = 0 \<Longrightarrow>
     snd (orientK s (a, m, Q, R, E)) = orientK_normalize (orientK_filter s a m Q R)"
  by (simp add: orientK_def Let_def split: if_splits)

text \<open>
  Claim C10, as stated, fails: with a zero accelerometer vector the 33rd call of
  \<^verbatim>\<open>orientLP\<close> returns 0 and leaves a stored accelerometer vector whose norm is NaN, not 1.
\<close>

theorem not_unit_counterexample:
  "fst (run_outs orientLP orientLP_init
     (replicate 32 (vec3 (Fin 0) (Fin 0) (Fin 0), vec3 (Fin 1) (Fin 0) (Fin 0), Fin (1 / 2)) @
      [(vec3 (Fin 0) (Fin 0) (Fin 0), vec3 (Fin 1) (Fin 0) (Fin 0), Fin (1 / 2))]) ! 32) = 0 \<and>
   magnitude
     (olp_aX (run_state orientLP orientLP_init
        (replicate 32 (vec3 (Fin 0) (Fin 0) (Fin 0), vec3 (Fin 1) (Fin 0) (Fin 0), Fin (1 / 2)) @
         [(vec3 (Fin 0) (Fin 0) (Fin 0), vec3 (Fin 1) (Fin 0) (Fin 0), Fin (1 / 2))])))
     (olp_aY (run_state orientLP orientLP_init
        (replicate 32 (vec3 (Fin 0) (Fin 0) (Fin 0), vec3 (Fin 1) (Fin 0) (Fin 0), Fin (1 / 2)) @
         [(vec3 (Fin 0) (Fin 0) (Fin 0), vec3 (Fin 1) (Fin 0) (Fin 0), Fin (1 / 2))])))
     (olp_aZ (run_state orientLP orientLP_init
        (replicate 32 (vec3 (Fin 0) (Fin 0) (Fin 0), vec3 (Fin 1) (Fin 0) (Fin 0), Fin (1 / 2)) @
         [(vec3 (Fin 0) (Fin 0) (Fin 0), vec3 (Fin 1) (Fin 0) (Fin 0), Fin (1 / 2))])))
     = NaN"
  by (simp add: run_outs_append run_outs_length nth_append run_state_append orientLP_dark
      orientLP_ready orientLP_filter_fin orientLP_normalize_def magnitude_def Let_def)

text \<open>
  Claim C10, amended. A call of \<^verbatim>\<open>orientLP\<close> or \<^verbatim>\<open>orientK\<close> that returns 0 leaves as stored
  vectors the filtered vectors divided by their norms as the program computes them, and
  the filter update of the next call takes these quotients as its previous state. The
  quotients need not have norm 1: those of a zero vector are NaN.
\<close>

theorem normalization_in_place:
  "(fst (fst (orientLP s (a, m, alpha))) = 0 \<longrightarrow>
      snd (orientLP s (a, m, alpha)) = orientLP_normalize (orientLP_filter s a m alpha) \<and>
      (olp_aX (snd (orientLP s (a, m, alpha))), olp_aY (snd (orientLP s (a, m, alpha))),
       olp_aZ (snd (orientLP s (a, m, alpha)))) =
        normalized (olp_aX (orientLP_filter s a m alpha), olp_aY (orientLP_filter s a m alpha),
          olp_aZ (orientLP_filter s a m alpha)) \<and>
      (olp_mX (snd (orientLP s (a, m, alpha))), olp_mY (snd (orientLP s (a, m, alpha))),
       olp_mZ (snd (orientLP s (a, m, alpha)))) =
        normalized (olp_mX (orientLP_filter s a m alpha), olp_mY (orientLP_filter s a m alpha),
          olp_mZ (orientLP_filter s a m alpha)) \<and>
      olp_aX (orientLP_filter (snd (orientLP s (a, m, alpha))) a' m' alpha') =
        low_pass alpha' (a' X) (olp_aX (snd (orientLP s (a, m, alpha)))) \<and>
      olp_aY (orientLP_filter (snd (orientLP s (a, m, alpha))) a' m' alpha') =
        low_pass alpha' (a' Y) (olp_aY (snd (orientLP s (a, m, alpha)))) \<and>
      olp_aZ (orientLP_filter (snd (orientLP s (a, m, alpha))) a' m' alpha') =
        low_pass alpha' (a' Z) (olp_aZ (snd (orientLP s (a, m, alpha)))) \<and>
      olp_mX (orientLP_filter (snd (orientLP s (a, m, alpha))) a' m' alpha') =
        low_pass alpha' (m' X) (olp_mX (snd (orientLP s (a, m, alpha)))) \<and>
      olp_mY (orientLP_filter (snd (orientLP s (a, m, alpha))) a' m' alpha') =
        low_pass alpha' (m' Y) (olp_mY (snd (orientLP s (a, m, alpha)))) \<and>
      olp_mZ (orientLP_filter (snd (orientLP s (a, m, alpha))) a' m' alpha') =
        low_pass alpha' (m' Z) (olp_mZ (snd (orientLP s (a, m, alpha))))) \<and>
   (fst (fst (orientK u (a, m, Q, R, E))) = 0 \<longrightarrow>
      snd (orientK u (a, m, Q, R, E)) = orientK_normalize (orientK_filter u a m Q R) \<and>
      (ok_fA (snd (orientK u (a, m, Q, R, E))) X, ok_fA (snd (orientK u (a, m, Q, R, E))) Y,
       ok_fA (snd (orientK u (a, m, Q, R, E))) Z) =
        normalized (ok_fA (orientK_filter u a m Q R) X, ok_fA (orientK_filter u a m Q R) Y,
          ok_fA (orientK_filter u a m Q R) Z) \<and>
      (ok_fM (snd (orientK u (a, m, Q, R, E))) X, ok_fM (snd (orientK u (a, m, Q, R, E))) Y,
       ok_fM (snd (orientK u (a, m, Q, R, E))) Z) =
        normalized (ok_fM (orientK_filter u a m Q R) X, ok_fM (orientK_filter u a m Q R) Y,
          ok_fM (orientK_filter u a m Q R) Z) \<and>
      (\<forall>i. (ok_fA (orientK_filter (snd (orientK u (a, m, Q, R, E))) a' m' Q' R') i,
            ok_eA (orientK_filter (snd (orientK u (a, m, Q, R, E))) a' m' Q' R') i) =
             kalman_spec Q' R' (a' i)
               (ok_fA (snd (orientK u (a, m, Q, R, E))) i, ok_eA (snd (orientK u (a, m, Q, R, E))) i) \<and>
           (ok_fM (orientK_filter (snd (orientK u (a, m, Q, R, E))) a' m' Q' R') i,
            ok_eM (orientK_filter (snd (orientK u (a, m, Q, R, E))) a' m' Q' R') i) =
             kalman_spec Q' R' (m' i)
               (ok_fM (snd (orientK u (a, m, Q, R, E))) i, ok_eM (snd (orientK u (a, m, Q, R, E))) i))) \<and>
   normalized (Fin 0, Fin 0, Fin 0) = (NaN, NaN, NaN)"
proof -
  have "normalized (Fin 0, Fin 0, Fin 0) = (NaN, NaN, NaN)"
    by (simp add: normalized_def magnitude_def)
  then show ?thesis
    using orientLP_returns_ready [of s a m alpha] orientK_returns_ready [of u a m Q R E]
      orientLP_normalized [of "orientLP_filter s a m alpha"]
      orientK_normalized [of "orientK_filter u a m Q R"]
    by (auto simp: orientLP_filter_def orientK_filter_kalman)
qed

theorem normalization_in_place_witness:
  "fst (fst (orientLP (run_state orientLP orientLP_init
      (replicate 32 (vec3 (Fin 0) (Fin 0) (Fin 1), vec3 (Fin 1) (Fin 0) (Fin 0), Fin (1 / 2))))
      (vec3 (Fin 0) (Fin 0) (Fin 3), vec3 (Fin 7) (Fin 0) (Fin 0), Fin (1 / 2)))) = 0 \<and>
   olp_aZ (orientLP_filter (run_state orientLP orientLP_init
      (replicate 32 (vec3 (Fin 0) (Fin 0) (Fin 1), vec3 (Fin 1) (Fin 0) (Fin 0), Fin (1 / 2))))
      (vec3 (Fin 0) (Fin 0) (Fin 3)) (vec3 (Fin 7) (Fin 0) (Fin 0)) (Fin (1 / 2))) = Fin 2 \<and>
   olp_aZ (snd (orientLP (run_state orientLP orientLP_init
      (replicate 32 (vec3 (Fin 0) (Fin 0) (Fin 1), vec3 (Fin 1) (Fin 0) (Fin 0), Fin (1 / 2))))
      (vec3 (Fin 0) (Fin 0) (Fin 3), vec3 (Fin 7) (Fin 0) (Fin 0), Fin (1 / 2)))) = Fin 1 \<and>
   olp_aZ (orientLP_filter (snd (orientLP (run_state orientLP orientLP_init
      (replicate 32 (vec3 (Fin 0) (Fin 0) (Fin 1), vec3 (Fin 1) (Fin 0) (Fin 0), Fin (1 / 2))))
      (vec3 (Fin 0) (Fin 0) (Fin 3), vec3 (Fin 7) (Fin 0) (Fin 0), Fin (1 / 2))))
      (vec3 (Fin 0) (Fin 0) (Fin 3)) (vec3 (Fin 7) (Fin 0) (Fin 0)) (Fin (1 / 2))) = Fin 2 \<and>
   fst (fst (orientK (run_state orientK orientK_init
      (replicate 32 (vec3 (Fin 0) (Fin 0) (Fin 1), vec3 (Fin 1) (Fin 0) (Fin 0), Fin 1, Fin 0, Fin 1)))
      (vec3 (Fin 0) (Fin 0) (Fin 2), vec3 (Fin 4) (Fin 0) (Fin 0), Fin 1, Fin 0, Fin 1))) = 0 \<and>
   (ok_fA (snd (orientK (run_state orientK orientK_init
      (replicate 32 (vec3 (Fin 0) (Fin 0) (Fin 1), vec3 (Fin 1) (Fin 0) (Fin 0), Fin 1, Fin 0, Fin 1)))
      (vec3 (Fin 0) (Fin 0) (Fin 2), vec3 (Fin 4) (Fin 0) (Fin 0), Fin 1, Fin 0, Fin 1))) X,
    ok_fA (snd (orientK (run_state orientK orientK_init
      (replicate 32 (vec3 (Fin 0) (Fin 0) (Fin 1), vec3 (Fin 1) (Fin 0) (Fin 0), Fin 1, Fin 0, Fin 1)))
      (vec3 (Fin 0) (Fin 0) (Fin 2), vec3 (Fin 4) (Fin 0) (Fin 0), Fin 1, Fin 0, Fin 1))) Y,
    ok_fA (snd (orientK (run_state orientK orientK_init
      (replicate 32 (vec3 (Fin 0) (Fin 0) (Fin 1), vec3 (Fin 1) (Fin 0) (Fin 0), Fin 1, Fin 0, Fin 1)))
      (vec3 (Fin 0) (Fin 0) (Fin 2), vec3 (Fin 4) (Fin 0) (Fin 0), Fin 1, Fin 0, Fin 1))) Z) =
     (Fin 0, Fin 0, Fin 1)"
  using normalization_in_place [where
      s = "run_state orientLP orientLP_init
        (replicate 32 (vec3 (Fin 0) (Fin 0) (Fin 1), vec3 (Fin 1) (Fin 0) (Fin 0), Fin (1 / 2)))"
      and a = "vec3 (Fin 0) (Fin 0) (Fin 3)" and m = "vec3 (Fin 7) (Fin 0) (Fin 0)"
      and alpha = "Fin (1 / 2)" and a' = "vec3 (Fin 0) (Fin 0) (Fin 3)"
      and m' = "vec3 (Fin 7) (Fin 0) (Fin 0)" and alpha' = "Fin (1 / 2)"
      and u = orientK_init and Q = "Fin 1" and R = "Fin 0" and E = "Fin 1"
      and Q' = "Fin 1" and R' = "Fin 0"]
    normalization_in_place [where
      s = orientLP_init and alpha = "Fin (1 / 2)"
      and a = "vec3 (Fin 0) (Fin 0) (Fin 2)" and m = "vec3 (Fin 4) (Fin 0) (Fin 0)"
      and a' = "vec3 (Fin 0) (Fin 0) (Fin 2)"
      and m' = "vec3 (Fin 4) (Fin 0) (Fin 0)" and alpha' = "Fin (1 / 2)"
      and u = "run_state orientK orientK_init
        (replicate 32 (vec3 (Fin 0) (Fin 0) (Fin 1), vec3 (Fin 1) (Fin 0) (Fin 0), Fin 1, Fin 0, Fin 1))"
      and Q = "Fin 1" and R = "Fin 0" and E = "Fin 1"
      and Q' = "Fin 1" and R' = "Fin 0"]
  by (simp add: orientLP_level orientK_trusting orientLP_ready orientK_ready orientLP_filter_fin
      orientK_filter_fin normalized_def magnitude_def low_pass_def fsub_def)

end
